theory Spec2Isabelle
  imports Main "HOL-Library.Char_ord" "HOL-Library.List_Lexorder" "HOL-Library.Multiset"
begin

chapter \<open>CLIProxyAPIPlus: request translation and usage persistence\<close>

text \<open>
  A shallow embedding of two parts of the proxy:
  \<^item> \<^verbatim>\<open>internal/translator/antigravity/openai/chat-completions/antigravity_openai_request.go\<close>:
    \<^verbatim>\<open>cleanToolSchema\<close> and \<^verbatim>\<open>ConvertOpenAIRequestToAntigravity\<close>;
  \<^item> the usage package (SQLite store, persistence plugin, \<^verbatim>\<open>EnablePersistence\<close>).

  Go strings are byte strings and become \<open>string\<close> (a \<open>char list\<close>). JSON documents
  are handled in the source through gjson (lookups) and sjson (updates) on raw text; here a
  document is its parsed tree, a lookup result is a \<open>json option\<close> (\<open>None\<close>: the path does
  not exist), and the raw text of a value is its compact serialisation. Text that the source
  splices in verbatim (\<^verbatim>\<open>sjson.SetRaw\<close> of a Go string) is kept as text in the tree.
\<close>

section \<open>Strings\<close>

text \<open>The double quote and the backslash, written by code point.\<close>
definition dq :: char where "dq = CHR 0x22"

definition is_space :: "char \<Rightarrow> bool" where
  "is_space c \<longleftrightarrow> c = CHR 0x09 \<or> c = CHR 0x0A \<or> c = CHR 0x0C \<or> c = CHR 0x0D \<or> c = CHR 0x20"

fun strip_prefix :: "string \<Rightarrow> string \<Rightarrow> string option" where
  "strip_prefix [] s = Some s"
| "strip_prefix (p # ps) [] = None"
| "strip_prefix (p # ps) (c # cs) = (if p = c then strip_prefix ps cs else None)"

definition skip_space :: "string \<Rightarrow> string" where
  "skip_space s = dropWhile is_space s"

definition opt_comma :: "string \<Rightarrow> string" where
  "opt_comma s = (case strip_prefix '','' s of Some r \<Rightarrow> r | None \<Rightarrow> s)"

definition match_bool :: "string \<Rightarrow> string option" where
  "match_bool s = (case strip_prefix ''true'' s of Some r \<Rightarrow> Some r | None \<Rightarrow> strip_prefix ''false'' s)"

definition key_literal :: string where
  "key_literal = dq # ''additionalProperties'' @ [dq]"

definition match_core :: "string \<Rightarrow> string option" where
  "match_core s =
     Option.bind (strip_prefix key_literal s) (\<lambda>r1.
     Option.bind (strip_prefix '':'' (skip_space r1)) (\<lambda>r2.
     match_bool (skip_space r2)))"

definition additionalPropsRegex :: "string \<Rightarrow> string option" where
  "additionalPropsRegex s = map_option (\<lambda>r. opt_comma (skip_space r)) (match_core s)"

lemma strip_prefix_length: "strip_prefix p s = Some r \<Longrightarrow> length s = length p + length r"
  by (induction p s rule: strip_prefix.induct) (auto split: if_splits)

lemma skip_space_length: "length (skip_space s) \<le> length s"
  unfolding skip_space_def by (induction s) auto

lemma opt_comma_length: "length (opt_comma s) \<le> length s"
  by (auto simp: opt_comma_def split: option.splits dest!: strip_prefix_length)

lemma match_bool_length: "match_bool s = Some r \<Longrightarrow> length r < length s"
  by (auto simp: match_bool_def split: option.splits dest!: strip_prefix_length)

lemma match_core_length:
  assumes "match_core s = Some r"
  shows "length r < length s"
proof -
  from assms obtain r1 r2 where r1: "strip_prefix key_literal s = Some r1"
    and r2: "strip_prefix '':'' (skip_space r1) = Some r2"
    and mb: "match_bool (skip_space r2) = Some r"
    by (auto simp: match_core_def split: bind_splits)
  have "length r < length (skip_space r2)" using mb by (rule match_bool_length)
  also have "\<dots> \<le> length r2" by (rule skip_space_length)
  also have "\<dots> \<le> length (skip_space r1)" using strip_prefix_length[OF r2] by simp
  also have "\<dots> \<le> length r1" by (rule skip_space_length)
  also have "\<dots> \<le> length s" using strip_prefix_length[OF r1] by simp
  finally show ?thesis .
qed

lemma additionalPropsRegex_length:
  assumes "additionalPropsRegex s = Some r"
  shows "length r < length s"
proof -
  from assms obtain r4 where r4: "match_core s = Some r4" and r: "r = opt_comma (skip_space r4)"
    by (auto simp: additionalPropsRegex_def)
  have "length r \<le> length (skip_space r4)" unfolding r by (rule opt_comma_length)
  also have "\<dots> \<le> length r4" by (rule skip_space_length)
  also have "\<dots> < length s" using r4 by (rule match_core_length)
  finally show ?thesis .
qed

function ReplaceAllString :: "string \<Rightarrow> string" where
  "ReplaceAllString [] = []"
| "ReplaceAllString (c # cs) =
     (case additionalPropsRegex (c # cs) of
        Some rest \<Rightarrow> ReplaceAllString rest
      | None \<Rightarrow> c # ReplaceAllString cs)"
  by pat_completeness auto
termination
  by (relation "measure length") (auto dest: additionalPropsRegex_length)

function strings_ReplaceAll :: "string \<Rightarrow> string \<Rightarrow> string \<Rightarrow> string" where
  "strings_ReplaceAll [] old new = (if old = [] then new else [])"
| "strings_ReplaceAll (c # cs) old new =
     (if old = [] then new @ c # strings_ReplaceAll cs old new
      else (case strip_prefix old (c # cs) of
              Some rest \<Rightarrow> new @ strings_ReplaceAll rest old new
            | None \<Rightarrow> c # strings_ReplaceAll cs old new))"
  by pat_completeness auto
termination
  by (relation "measure (\<lambda>(s, old, new). length s)") (auto dest: strip_prefix_length)

definition cleanToolSchema :: "string \<Rightarrow> string" where
  "cleanToolSchema schema =
     (let cleaned = ReplaceAllString schema;
          cleaned = strings_ReplaceAll cleaned '',}'' ''}'';
          cleaned = strings_ReplaceAll cleaned '', }'' ''}''
      in cleaned)"








section \<open>JSON\<close>


definition bs :: char where "bs = CHR 0x5C"

datatype json =
    JNull
  | JBool bool
  | JNum int
  | JStr string
  | JArr "json list"
  | JObj "(string \<times> json) list"
  | JRaw string

datatype seg = Key string | Idx nat | Append

fun escape :: "string \<Rightarrow> string" where
  "escape [] = []"
| "escape (c # cs) = (if c = dq \<or> c = bs then bs # c # escape cs else c # escape cs)"

definition quote :: "string \<Rightarrow> string" where
  "quote s = dq # escape s @ [dq]"

definition digit_char :: "nat \<Rightarrow> char" where
  "digit_char d = char_of (48 + d)"

function show_nat :: "nat \<Rightarrow> string" where
  "show_nat n = (if n < 10 then [digit_char n] else show_nat (n div 10) @ [digit_char (n mod 10)])"
  by pat_completeness auto
termination
  by (relation "measure id") auto

definition show_int :: "int \<Rightarrow> string" where
  "show_int i = (if i < 0 then CHR ''-'' # show_nat (nat (- i)) else show_nat (nat i))"

fun render :: "json \<Rightarrow> string"
  and render_elems :: "json list \<Rightarrow> string"
  and render_members :: "(string \<times> json) list \<Rightarrow> string" where
  "render JNull = ''null''"
| "render (JBool b) = (if b then ''true'' else ''false'')"
| "render (JNum n) = show_int n"
| "render (JStr s) = quote s"
| "render (JArr xs) = ''['' @ render_elems xs @ '']''"
| "render (JObj kvs) = ''{'' @ render_members kvs @ ''}''"
| "render (JRaw r) = r"
| "render_elems [] = []"
| "render_elems (x # xs) = render x @ (if xs = [] then [] else '','' @ render_elems xs)"
| "render_members [] = []"
| "render_members (kv # kvs) =
     quote (fst kv) @ '':'' @ render (snd kv) @ (if kvs = [] then [] else '','' @ render_members kvs)"


subsection \<open>gjson\<close>

fun gjson_Get :: "json \<Rightarrow> string list \<Rightarrow> json option" where
  "gjson_Get j [] = Some j"
| "gjson_Get (JObj kvs) (k # ks) = (case map_of kvs k of None \<Rightarrow> None | Some v \<Rightarrow> gjson_Get v ks)"
| "gjson_Get _ (k # ks) = None"

definition Get :: "json option \<Rightarrow> string list \<Rightarrow> json option" where
  "Get r path = (case r of None \<Rightarrow> None | Some j \<Rightarrow> gjson_Get j path)"

definition Exists :: "json option \<Rightarrow> bool" where
  "Exists r \<longleftrightarrow> r \<noteq> None"

fun IsObject :: "json option \<Rightarrow> bool" where
  "IsObject (Some (JObj kvs)) = True"
| "IsObject _ = False"

fun IsArray :: "json option \<Rightarrow> bool" where
  "IsArray (Some (JArr xs)) = True"
| "IsArray _ = False"

fun Array :: "json option \<Rightarrow> json list" where
  "Array None = []"
| "Array (Some JNull) = []"
| "Array (Some (JArr xs)) = xs"
| "Array (Some j) = [j]"

fun Raw :: "json option \<Rightarrow> string" where
  "Raw None = []"
| "Raw (Some j) = render j"

fun gjson_String :: "json option \<Rightarrow> string" where
  "gjson_String None = []"
| "gjson_String (Some JNull) = []"
| "gjson_String (Some (JBool b)) = (if b then ''true'' else ''false'')"
| "gjson_String (Some (JNum n)) = show_int n"
| "gjson_String (Some (JStr s)) = s"
| "gjson_String (Some j) = render j"

fun is_String :: "json option \<Rightarrow> bool" where
  "is_String (Some (JStr s)) = True"
| "is_String _ = False"

fun is_Number :: "json option \<Rightarrow> bool" where
  "is_Number (Some (JNum n)) = True"
| "is_Number _ = False"

definition is_digit :: "char \<Rightarrow> bool" where
  "is_digit c \<longleftrightarrow> 48 \<le> (of_char c :: nat) \<and> (of_char c :: nat) \<le> 57"

fun parse_digits :: "string \<Rightarrow> int \<Rightarrow> int option" where
  "parse_digits [] n = Some n"
| "parse_digits (c # cs) n =
     (if is_digit c then parse_digits cs (n * 10 + (int (of_char c) - 48)) else None)"

definition parseInt :: "string \<Rightarrow> int option" where
  "parseInt s =
     (case s of
        [] \<Rightarrow> None
      | c # cs \<Rightarrow>
          if c = CHR ''-'' then (if cs = [] then None else map_option uminus (parse_digits cs 0))
          else parse_digits s 0)"

fun gjson_Int :: "json option \<Rightarrow> int" where
  "gjson_Int (Some (JBool True)) = 1"
| "gjson_Int (Some (JStr s)) = (case parseInt s of Some n \<Rightarrow> n | None \<Rightarrow> 0)"
| "gjson_Int (Some (JNum n)) = n"
| "gjson_Int _ = 0"

definition to_lower_char :: "char \<Rightarrow> char" where
  "to_lower_char c =
     (if 65 \<le> (of_char c :: nat) \<and> (of_char c :: nat) \<le> 90 then char_of ((of_char c :: nat) + 32) else c)"

definition ToLower :: "string \<Rightarrow> string" where
  "ToLower s = map to_lower_char s"

definition is_go_space :: "char \<Rightarrow> bool" where
  "is_go_space c \<longleftrightarrow> is_space c \<or> c = CHR 0x0B"

definition TrimSpace :: "string \<Rightarrow> string" where
  "TrimSpace s = rev (dropWhile is_go_space (rev (dropWhile is_go_space s)))"

fun Contains :: "string \<Rightarrow> string \<Rightarrow> bool" where
  "Contains [] sub = (sub = [])"
| "Contains (c # cs) sub = (strip_prefix sub (c # cs) \<noteq> None \<or> Contains cs sub)"

definition ParseBool :: "string \<Rightarrow> bool" where
  "ParseBool s \<longleftrightarrow> s = ''1'' \<or> s = ''t'' \<or> s = ''T'' \<or> s = ''TRUE'' \<or> s = ''true'' \<or> s = ''True''"

fun gjson_Bool :: "json option \<Rightarrow> bool" where
  "gjson_Bool (Some (JBool b)) = b"
| "gjson_Bool (Some (JStr s)) = ParseBool (ToLower s)"
| "gjson_Bool (Some (JNum n)) = (n \<noteq> 0)"
| "gjson_Bool _ = False"

subsection \<open>sjson\<close>

fun members_of :: "json option \<Rightarrow> (string \<times> json) list" where
  "members_of (Some (JObj kvs)) = kvs"
| "members_of _ = []"

fun elems_of :: "json option \<Rightarrow> json list" where
  "elems_of (Some (JArr xs)) = xs"
| "elems_of _ = []"

fun put_member :: "(string \<times> json) list \<Rightarrow> string \<Rightarrow> json \<Rightarrow> (string \<times> json) list" where
  "put_member [] k v = [(k, v)]"
| "put_member (kv # kvs) k v = (if fst kv = k then (k, v) # kvs else kv # put_member kvs k v)"

definition nth_opt :: "'a list \<Rightarrow> nat \<Rightarrow> 'a option" where
  "nth_opt xs i = (if i < length xs then Some (xs ! i) else None)"

definition put_elem :: "json list \<Rightarrow> nat \<Rightarrow> json \<Rightarrow> json list" where
  "put_elem xs i v =
     (if i < length xs then xs[i := v] else xs @ replicate (i - length xs) JNull @ [v])"

fun set_at :: "json option \<Rightarrow> seg list \<Rightarrow> json \<Rightarrow> json" where
  "set_at cur [] v = v"
| "set_at cur (Key k # path) v =
     JObj (put_member (members_of cur) k (set_at (map_of (members_of cur) k) path v))"
| "set_at cur (Idx i # path) v =
     JArr (put_elem (elems_of cur) i (set_at (nth_opt (elems_of cur) i) path v))"
| "set_at cur (Append # path) v = JArr (elems_of cur @ [set_at None path v])"

definition sjson_Set :: "json \<Rightarrow> seg list \<Rightarrow> json \<Rightarrow> json" where
  "sjson_Set j path v = set_at (Some j) path v"

fun del_member :: "(string \<times> json) list \<Rightarrow> string \<Rightarrow> (string \<times> json) list" where
  "del_member [] k = []"
| "del_member (kv # kvs) k = (if fst kv = k then kvs else kv # del_member kvs k)"

fun sjson_Delete :: "json \<Rightarrow> string list \<Rightarrow> json" where
  "sjson_Delete j [] = j"
| "sjson_Delete (JObj kvs) [k] = JObj (del_member kvs k)"
| "sjson_Delete (JObj kvs) (k # k' # ks) =
     (case map_of kvs k of
        None \<Rightarrow> JObj kvs
      | Some v \<Rightarrow> JObj (put_member kvs k (sjson_Delete v (k' # ks))))"
| "sjson_Delete j (k # ks) = j"



section \<open>The request converter\<close>


record util =
  ModelSupportsThinking :: "string \<Rightarrow> bool"
  IsGemini3Model :: "string \<Rightarrow> bool"
  ModelUsesThinkingLevels :: "string \<Rightarrow> bool"
  ValidateGemini3ThinkingLevel :: "string \<Rightarrow> string \<Rightarrow> string option"
  ApplyGeminiCLIThinkingLevel :: "json \<Rightarrow> string \<Rightarrow> bool option \<Rightarrow> json"
  ApplyReasoningEffortToGeminiCLI :: "json \<Rightarrow> string \<Rightarrow> json"
  MimeTypes :: "string \<Rightarrow> string option"
  AttachDefaultSafetySettings :: "json \<Rightarrow> json"
  Valid :: "string \<Rightarrow> bool"

definition RenameKey :: "json \<Rightarrow> string \<Rightarrow> string \<Rightarrow> unit + json" where
  "RenameKey j oldKey newKey =
     (case gjson_Get j [oldKey] of
        None \<Rightarrow> Inl ()
      | Some v \<Rightarrow> Inr (sjson_Delete (sjson_Set j [Key newKey] v) [oldKey]))"

definition letters :: string where
  "letters = ''abcdefghijklmnopqrstuvwxyzABCDEFGHIJKLMNOPQRSTUVWXYZ0123456789''"

definition genToolCallID :: "(nat \<Rightarrow> nat) \<Rightarrow> nat \<Rightarrow> string" where
  "genToolCallID rnd k = ''toolu_'' @ map (\<lambda>i. letters ! (rnd (k + i) mod length letters)) [0..<24]"

definition includeToolIDs :: "string \<Rightarrow> bool" where
  "includeToolIDs modelName = Contains (ToLower modelName) ''claude''"

subsection \<open>Reasoning configuration (lines 65-127)\<close>

definition thinkingConfig :: "string list" where
  "thinkingConfig = [''request'', ''generationConfig'', ''thinkingConfig'']"

definition thinkingBudget :: "seg list" where
  "thinkingBudget = map Key thinkingConfig @ [Key ''thinkingBudget'']"

definition include_thoughts :: "seg list" where
  "include_thoughts = map Key thinkingConfig @ [Key ''include_thoughts'']"

definition hasOfficialThinking :: "json \<Rightarrow> bool" where
  "hasOfficialThinking rawJSON = Exists (gjson_Get rawJSON [''reasoning_effort''])"

definition reasoning_effort_step :: "util \<Rightarrow> string \<Rightarrow> json \<Rightarrow> json \<Rightarrow> json" where
  "reasoning_effort_step U modelName rawJSON out =
     (if hasOfficialThinking rawJSON \<and> ModelSupportsThinking U modelName then
        (let effort = ToLower (TrimSpace (gjson_String (gjson_Get rawJSON [''reasoning_effort'']))) in
         if IsGemini3Model U modelName then
           (if effort = ''none'' then sjson_Delete out thinkingConfig
            else if effort = ''auto'' then ApplyGeminiCLIThinkingLevel U out [] (Some True)
            else (case ValidateGemini3ThinkingLevel U modelName effort of
                    Some level \<Rightarrow> ApplyGeminiCLIThinkingLevel U out level None
                  | None \<Rightarrow> out))
         else if \<not> ModelUsesThinkingLevels U modelName then ApplyReasoningEffortToGeminiCLI U out effort
         else out)
      else out)"

definition thinking_config_budget :: "json option \<Rightarrow> json \<Rightarrow> json \<times> bool \<times> int" where
  "thinking_config_budget tc out =
     (case Get tc [''thinkingBudget''] of
        Some v \<Rightarrow> (sjson_Set out thinkingBudget (JNum (gjson_Int (Some v))), True, gjson_Int (Some v))
      | None \<Rightarrow>
          (case Get tc [''thinking_budget''] of
             Some v \<Rightarrow> (sjson_Set out thinkingBudget (JNum (gjson_Int (Some v))), True, gjson_Int (Some v))
           | None \<Rightarrow> (out, False, 0)))"

definition thinking_config_thoughts :: "json option \<Rightarrow> json \<times> bool \<times> int \<Rightarrow> json" where
  "thinking_config_thoughts tc st =
     (case st of (out, setBudget, budget) \<Rightarrow>
       (case Get tc [''includeThoughts''] of
          Some v \<Rightarrow> sjson_Set out include_thoughts (JBool (gjson_Bool (Some v)))
        | None \<Rightarrow>
            (case Get tc [''include_thoughts''] of
               Some v \<Rightarrow> sjson_Set out include_thoughts (JBool (gjson_Bool (Some v)))
             | None \<Rightarrow> if setBudget \<and> budget \<noteq> 0 then sjson_Set out include_thoughts (JBool True) else out)))"

definition thinking_config_step :: "util \<Rightarrow> string \<Rightarrow> json \<Rightarrow> json \<Rightarrow> json" where
  "thinking_config_step U modelName rawJSON out =
     (if \<not> hasOfficialThinking rawJSON \<and> ModelSupportsThinking U modelName \<and>
         \<not> ModelUsesThinkingLevels U modelName then
        (let tc = gjson_Get rawJSON [''extra_body'', ''google'', ''thinking_config''] in
         if Exists tc \<and> IsObject tc then thinking_config_thoughts tc (thinking_config_budget tc out)
         else out)
      else out)"

definition anthropic_thinking_step :: "util \<Rightarrow> string \<Rightarrow> json \<Rightarrow> json \<Rightarrow> json" where
  "anthropic_thinking_step U modelName rawJSON out =
     (if \<not> Exists (gjson_Get out thinkingConfig) \<and> ModelSupportsThinking U modelName then
        (let t = gjson_Get rawJSON [''thinking''] in
         if Exists t \<and> IsObject t then
           (if gjson_String (Get t [''type'']) = ''enabled'' then
              (let b = Get t [''budget_tokens''] in
               if Exists b \<and> is_Number b then
                 sjson_Set (sjson_Set out thinkingBudget (JNum (gjson_Int b))) include_thoughts (JBool True)
               else out)
            else out)
         else out)
      else out)"

definition thinking_steps :: "util \<Rightarrow> string \<Rightarrow> json \<Rightarrow> json \<Rightarrow> json" where
  "thinking_steps U modelName rawJSON out =
     anthropic_thinking_step U modelName rawJSON
       (thinking_config_step U modelName rawJSON
          (reasoning_effort_step U modelName rawJSON out))"

subsection \<open>Generation parameters (lines 129-169)\<close>

definition generationConfig :: "string \<Rightarrow> seg list" where
  "generationConfig k = [Key ''request'', Key ''generationConfig'', Key k]"

definition copy_number :: "json \<Rightarrow> string \<Rightarrow> seg list \<Rightarrow> json \<Rightarrow> json" where
  "copy_number rawJSON k path out =
     (let r = gjson_Get rawJSON [k] in
      if Exists r \<and> is_Number r then sjson_Set out path (JNum (gjson_Int r)) else out)"

fun responseMods :: "json list \<Rightarrow> string list" where
  "responseMods [] = []"
| "responseMods (m # ms) =
     (let s = ToLower (gjson_String (Some m)) in
      if s = ''text'' then ''TEXT'' # responseMods ms
      else if s = ''image'' then ''IMAGE'' # responseMods ms
      else responseMods ms)"

definition modalities_step :: "json \<Rightarrow> json \<Rightarrow> json" where
  "modalities_step rawJSON out =
     (let mods = gjson_Get rawJSON [''modalities''] in
      if Exists mods \<and> IsArray mods then
        (if length (responseMods (Array mods)) > 0
         then sjson_Set out (generationConfig ''responseModalities'') (JArr (map JStr (responseMods (Array mods))))
         else out)
      else out)"

definition copy_string :: "json option \<Rightarrow> string \<Rightarrow> seg list \<Rightarrow> json \<Rightarrow> json" where
  "copy_string cfg k path out =
     (let r = Get cfg [k] in
      if Exists r \<and> is_String r then sjson_Set out path (JStr (gjson_String r)) else out)"

definition image_config_step :: "json \<Rightarrow> json \<Rightarrow> json" where
  "image_config_step rawJSON out =
     (let imgCfg = gjson_Get rawJSON [''image_config''] in
      if Exists imgCfg \<and> IsObject imgCfg then
        copy_string imgCfg ''image_size'' (generationConfig ''imageConfig'' @ [Key ''imageSize''])
          (copy_string imgCfg ''aspect_ratio'' (generationConfig ''imageConfig'' @ [Key ''aspectRatio'']) out)
      else out)"

definition generation_steps :: "json \<Rightarrow> json \<Rightarrow> json" where
  "generation_steps rawJSON out =
     image_config_step rawJSON
       (modalities_step rawJSON
          (copy_number rawJSON ''max_tokens'' (generationConfig ''maxOutputTokens'')
             (copy_number rawJSON ''top_k'' (generationConfig ''topK'')
                (copy_number rawJSON ''top_p'' (generationConfig ''topP'')
                   (copy_number rawJSON ''temperature'' (generationConfig ''temperature'') out)))))"


subsection \<open>Messages (lines 171-462)\<close>

type_synonym names = "string \<Rightarrow> string option"

fun tool_calls_names :: "json list \<Rightarrow> names \<Rightarrow> names" where
  "tool_calls_names [] tcID2Name = tcID2Name"
| "tool_calls_names (tc # tcs) tcID2Name =
     (let tcType = gjson_String (gjson_Get tc [''type'']) in
      if tcType = ''function'' \<or> tcType = [] then
        (let id = gjson_String (gjson_Get tc [''id'']);
             name = gjson_String (gjson_Get tc [''function'', ''name''])
         in tool_calls_names tcs (if id \<noteq> [] \<and> name \<noteq> [] then tcID2Name(id \<mapsto> name) else tcID2Name))
      else tool_calls_names tcs tcID2Name)"

fun tool_use_names :: "json list \<Rightarrow> names \<Rightarrow> names" where
  "tool_use_names [] tcID2Name = tcID2Name"
| "tool_use_names (item # items) tcID2Name =
     (if gjson_String (gjson_Get item [''type'']) = ''tool_use'' then
        (let id = gjson_String (gjson_Get item [''id'']);
             name = gjson_String (gjson_Get item [''name''])
         in tool_use_names items (if id \<noteq> [] \<and> name \<noteq> [] then tcID2Name(id \<mapsto> name) else tcID2Name))
      else tool_use_names items tcID2Name)"

fun first_pass :: "json list \<Rightarrow> names \<Rightarrow> names" where
  "first_pass [] tcID2Name = tcID2Name"
| "first_pass (m # arr) tcID2Name =
     (if gjson_String (gjson_Get m [''role'']) = ''assistant'' then
        (let tcs = gjson_Get m [''tool_calls''];
             tcID2Name = (if IsArray tcs then tool_calls_names (Array tcs) tcID2Name else tcID2Name);
             content = gjson_Get m [''content''];
             tcID2Name = (if IsArray content then tool_use_names (Array content) tcID2Name else tcID2Name)
         in first_pass arr tcID2Name)
      else first_pass arr tcID2Name)"

fun second_pass :: "json list \<Rightarrow> names \<Rightarrow> names" where
  "second_pass [] toolResponses = toolResponses"
| "second_pass (m # arr) toolResponses =
     (if gjson_String (gjson_Get m [''role'']) = ''tool'' then
        (let toolCallID = gjson_String (gjson_Get m [''tool_call_id''])
         in second_pass arr
              (if toolCallID \<noteq> [] then toolResponses(toolCallID \<mapsto> Raw (gjson_Get m [''content'']))
               else toolResponses))
      else second_pass arr toolResponses)"

text \<open>System messages.\<close>

definition systemInstruction :: "seg list \<Rightarrow> seg list" where
  "systemInstruction path = [Key ''request'', Key ''systemInstruction''] @ path"

fun system_parts :: "json list \<Rightarrow> nat \<Rightarrow> json \<Rightarrow> json" where
  "system_parts [] j out = out"
| "system_parts (c # contents) j out =
     system_parts contents (j + 1)
       (sjson_Set out (systemInstruction [Key ''parts'', Idx j, Key ''text''])
          (JStr (gjson_String (gjson_Get c [''text'']))))"

definition system_message :: "json option \<Rightarrow> json \<Rightarrow> json" where
  "system_message content out =
     (if is_String content then
        sjson_Set (sjson_Set out (systemInstruction [Key ''role'']) (JStr ''user''))
          (systemInstruction [Key ''parts'', Idx 0, Key ''text'']) (JStr (gjson_String content))
      else if IsObject content \<and> gjson_String (Get content [''type'']) = ''text'' then
        sjson_Set (sjson_Set out (systemInstruction [Key ''role'']) (JStr ''user''))
          (systemInstruction [Key ''parts'', Idx 0, Key ''text'']) (JStr (gjson_String (Get content [''text''])))
      else if IsArray content then
        (if length (Array content) > 0 then
           system_parts (Array content) 0 (sjson_Set out (systemInstruction [Key ''role'']) (JStr ''user''))
         else out)
      else out)"

text \<open>Image URLs (lines 259-270 and 351-363, the same code twice).\<close>

definition SplitN2 :: "string \<Rightarrow> char \<Rightarrow> string list" where
  "SplitN2 s sep =
     (case dropWhile (\<lambda>c. c \<noteq> sep) s of
        [] \<Rightarrow> [s]
      | _ # rest \<Rightarrow> [takeWhile (\<lambda>c. c \<noteq> sep) s, rest])"

definition inlineData :: "json \<Rightarrow> nat \<Rightarrow> string \<Rightarrow> string \<Rightarrow> json" where
  "inlineData node p mime data =
     sjson_Set (sjson_Set node [Key ''parts'', Idx p, Key ''inlineData'', Key ''mime_type''] (JStr mime))
       [Key ''parts'', Idx p, Key ''inlineData'', Key ''data''] (JStr data)"

definition image_url_item :: "json \<Rightarrow> json \<times> nat \<Rightarrow> json \<times> nat" where
  "image_url_item item st =
     (case st of (node, p) \<Rightarrow>
       (let imageURL = gjson_String (gjson_Get item [''image_url'', ''url'']) in
        if length imageURL > 5 then
          (let pieces = SplitN2 (drop 5 imageURL) (CHR '';'') in
           if length pieces = 2 \<and> length (pieces ! 1) > 7 then
             (let mime = pieces ! 0;
                  data = drop 7 (pieces ! 1)
              in (inlineData node p mime data, p + 1))
           else (node, p))
        else (node, p)))"

text \<open>User messages.\<close>

fun Split :: "string \<Rightarrow> char \<Rightarrow> string list" where
  "Split [] sep = [[]]"
| "Split (c # cs) sep =
     (if c = sep then [] # Split cs sep
      else (case Split cs sep of [] \<Rightarrow> [[c]] | w # ws \<Rightarrow> (c # w) # ws))"

definition file_ext :: "string \<Rightarrow> string" where
  "file_ext filename = (let sp = Split filename (CHR ''.'') in if length sp > 1 then last sp else [])"

definition file_item :: "util \<Rightarrow> json \<Rightarrow> json \<times> nat \<Rightarrow> json \<times> nat" where
  "file_item U item st =
     (case st of (node, p) \<Rightarrow>
       (let filename = gjson_String (gjson_Get item [''file'', ''filename'']);
            fileData = gjson_String (gjson_Get item [''file'', ''file_data''])
        in case MimeTypes U (file_ext filename) of
             Some mimeType \<Rightarrow> (inlineData node p mimeType fileData, p + 1)
           | None \<Rightarrow> (node, p)))"

fun text_of_subs :: "json list \<Rightarrow> string" where
  "text_of_subs [] = []"
| "text_of_subs (sub # subs) =
     (if gjson_String (gjson_Get sub [''type'']) = ''text''
      then gjson_String (gjson_Get sub [''text'']) @ text_of_subs subs
      else text_of_subs subs)"

definition tool_result_item :: "bool \<Rightarrow> names \<Rightarrow> json \<Rightarrow> json \<times> nat \<Rightarrow> json \<times> nat" where
  "tool_result_item incl tcID2Name item st =
     (case st of (node, p) \<Rightarrow>
       (let toolID = gjson_String (gjson_Get item [''tool_use_id'']);
            c = gjson_Get item [''content''];
            contentStr = (if IsArray c then text_of_subs (Array c) else gjson_String c)
        in case tcID2Name toolID of
             Some name \<Rightarrow>
               (let toolNode = sjson_Set (JObj []) [Key ''functionResponse'', Key ''name''] (JStr name);
                    toolNode = (if incl \<and> toolID \<noteq> []
                                then sjson_Set toolNode [Key ''functionResponse'', Key ''id''] (JStr toolID)
                                else toolNode);
                    toolNode = sjson_Set toolNode [Key ''functionResponse'', Key ''response'', Key ''result'']
                                 (JStr contentStr)
                in (sjson_Set node [Key ''parts'', Idx p] toolNode, p + 1))
           | None \<Rightarrow> (node, p)))"

definition text_item :: "json \<Rightarrow> json \<times> nat \<Rightarrow> json \<times> nat" where
  "text_item item st =
     (case st of (node, p) \<Rightarrow>
       (sjson_Set node [Key ''parts'', Idx p, Key ''text''] (JStr (gjson_String (gjson_Get item [''text'']))),
        p + 1))"

definition user_item :: "util \<Rightarrow> bool \<Rightarrow> names \<Rightarrow> json \<Rightarrow> json \<times> nat \<Rightarrow> json \<times> nat" where
  "user_item U incl tcID2Name item st =
     (let ty = gjson_String (gjson_Get item [''type'']) in
      if ty = ''text'' then text_item item st
      else if ty = ''image_url'' then image_url_item item st
      else if ty = ''file'' then file_item U item st
      else if ty = ''tool_result'' then tool_result_item incl tcID2Name item st
      else st)"

fun user_items :: "util \<Rightarrow> bool \<Rightarrow> names \<Rightarrow> json list \<Rightarrow> json \<times> nat \<Rightarrow> json \<times> nat" where
  "user_items U incl tcID2Name [] st = st"
| "user_items U incl tcID2Name (item # items) st =
     user_items U incl tcID2Name items (user_item U incl tcID2Name item st)"

definition new_node :: "string \<Rightarrow> json" where
  "new_node role = JObj [(''role'', JStr role), (''parts'', JArr [])]"

definition contents_append :: "json \<Rightarrow> json \<Rightarrow> json" where
  "contents_append out node = sjson_Set out [Key ''request'', Key ''contents'', Append] node"

definition user_message :: "util \<Rightarrow> bool \<Rightarrow> names \<Rightarrow> json option \<Rightarrow> json \<Rightarrow> json" where
  "user_message U incl tcID2Name content out =
     (let node = new_node ''user'';
          node = (if is_String content then
                    sjson_Set node [Key ''parts'', Idx 0, Key ''text''] (JStr (gjson_String content))
                  else if IsArray content then
                    fst (user_items U incl tcID2Name (Array content) (node, 0))
                  else node)
      in contents_append out node)"


text \<open>Assistant messages.\<close>

definition fresh_id :: "bool \<Rightarrow> (nat \<Rightarrow> nat) \<Rightarrow> string \<Rightarrow> nat \<Rightarrow> string \<times> nat" where
  "fresh_id incl rnd fid k = (if incl \<and> fid = [] then (genToolCallID rnd k, k + 24) else (fid, k))"

definition set_args :: "util \<Rightarrow> json \<Rightarrow> seg list \<Rightarrow> string \<Rightarrow> json" where
  "set_args U node path fargs =
     (if Valid U fargs then sjson_Set node (path @ [Key ''functionCall'', Key ''args'']) (JRaw fargs)
      else sjson_Set node (path @ [Key ''functionCall'', Key ''args'', Key ''params'']) (JStr fargs))"

definition tool_use_item ::
  "util \<Rightarrow> bool \<Rightarrow> (nat \<Rightarrow> nat) \<Rightarrow> json \<Rightarrow> json \<times> nat \<times> nat \<Rightarrow> json \<times> nat \<times> nat" where
  "tool_use_item U incl rnd item st =
     (case st of (node, p, k) \<Rightarrow>
       (let fname = gjson_String (gjson_Get item [''name'']);
            fargs = Raw (gjson_Get item [''input'']);
            (fid, k) = fresh_id incl rnd (gjson_String (gjson_Get item [''id''])) k;
            fcNode = sjson_Set (JObj []) [Key ''functionCall'', Key ''name''] (JStr fname);
            fcNode = (if incl \<and> fid \<noteq> []
                      then sjson_Set fcNode [Key ''functionCall'', Key ''id''] (JStr fid) else fcNode);
            fcNode = set_args U fcNode [] fargs
        in (sjson_Set node [Key ''parts'', Idx p] fcNode, p + 1, k)))"

definition assistant_item ::
  "util \<Rightarrow> bool \<Rightarrow> (nat \<Rightarrow> nat) \<Rightarrow> json \<Rightarrow> json \<times> nat \<times> nat \<Rightarrow> json \<times> nat \<times> nat" where
  "assistant_item U incl rnd item st =
     (case st of (node, p, k) \<Rightarrow>
       (let ty = gjson_String (gjson_Get item [''type'']) in
        if ty = ''text'' then (case text_item item (node, p) of (node, p) \<Rightarrow> (node, p, k))
        else if ty = ''image_url'' then (case image_url_item item (node, p) of (node, p) \<Rightarrow> (node, p, k))
        else if ty = ''tool_use'' then tool_use_item U incl rnd item st
        else st))"

fun assistant_items ::
  "util \<Rightarrow> bool \<Rightarrow> (nat \<Rightarrow> nat) \<Rightarrow> json list \<Rightarrow> json \<times> nat \<times> nat \<Rightarrow> json \<times> nat \<times> nat" where
  "assistant_items U incl rnd [] st = st"
| "assistant_items U incl rnd (item # items) st =
     assistant_items U incl rnd items (assistant_item U incl rnd item st)"

type_synonym calls_state = "json \<times> nat \<times> string list \<times> names \<times> nat"

definition tool_call :: "util \<Rightarrow> bool \<Rightarrow> (nat \<Rightarrow> nat) \<Rightarrow> json \<Rightarrow> calls_state \<Rightarrow> calls_state" where
  "tool_call U incl rnd tc st =
     (case st of (node, p, fIDs, tcID2Name, k) \<Rightarrow>
       (let tcType = gjson_String (gjson_Get tc [''type'']) in
        if tcType \<noteq> ''function'' \<and> tcType \<noteq> [] then st
        else
          (let fname = gjson_String (gjson_Get tc [''function'', ''name'']);
               fargs = gjson_String (gjson_Get tc [''function'', ''arguments'']);
               (fid, k) = fresh_id incl rnd (gjson_String (gjson_Get tc [''id''])) k;
               node = sjson_Set node [Key ''parts'', Idx p, Key ''functionCall'', Key ''name''] (JStr fname);
               node = (if incl \<and> fid \<noteq> []
                       then sjson_Set node [Key ''parts'', Idx p, Key ''functionCall'', Key ''id''] (JStr fid)
                       else node);
               tcID2Name = (if incl \<and> fid \<noteq> [] \<and> fname \<noteq> [] then tcID2Name(fid \<mapsto> fname) else tcID2Name);
               node = set_args U node [Key ''parts'', Idx p] fargs
           in (node, p + 1, (if fid \<noteq> [] then fIDs @ [fid] else fIDs), tcID2Name, k))))"

fun tool_calls :: "util \<Rightarrow> bool \<Rightarrow> (nat \<Rightarrow> nat) \<Rightarrow> json list \<Rightarrow> calls_state \<Rightarrow> calls_state" where
  "tool_calls U incl rnd [] st = st"
| "tool_calls U incl rnd (tc # tcs) st = tool_calls U incl rnd tcs (tool_call U incl rnd tc st)"

fun gjson_Parse_JSON :: "string \<Rightarrow> string option" where
  "gjson_Parse_JSON [] = None"
| "gjson_Parse_JSON (c # cs) =
     (if c = CHR ''{'' \<or> c = CHR ''['' then Some (c # cs)
      else if (of_char c :: nat) \<le> 32 then gjson_Parse_JSON cs
      else None)"

definition functionResponse :: "nat \<Rightarrow> seg list \<Rightarrow> seg list" where
  "functionResponse pp path = [Key ''parts'', Idx pp, Key ''functionResponse''] @ path"

definition function_response ::
  "bool \<Rightarrow> names \<Rightarrow> names \<Rightarrow> string \<Rightarrow> json \<times> nat \<Rightarrow> json \<times> nat" where
  "function_response incl tcID2Name toolResponses fid st =
     (case st of (toolNode, pp) \<Rightarrow>
       (case tcID2Name fid of
          None \<Rightarrow> st
        | Some name \<Rightarrow>
            (let toolNode = sjson_Set toolNode (functionResponse pp [Key ''name'']) (JStr name);
                 toolNode = (if incl then sjson_Set toolNode (functionResponse pp [Key ''id'']) (JStr fid)
                             else toolNode);
                 resp = (case toolResponses fid of None \<Rightarrow> [] | Some r \<Rightarrow> r);
                 resp = (if resp = [] then ''{}'' else resp);
                 toolNode =
                   (if resp \<noteq> ''null'' then
                      (case gjson_Parse_JSON resp of
                         Some raw \<Rightarrow>
                           sjson_Set toolNode (functionResponse pp [Key ''response'', Key ''result'']) (JRaw raw)
                       | None \<Rightarrow>
                           sjson_Set toolNode (functionResponse pp [Key ''response'', Key ''result'']) (JStr resp))
                    else toolNode)
             in (toolNode, pp + 1))))"

fun function_responses ::
  "bool \<Rightarrow> names \<Rightarrow> names \<Rightarrow> string list \<Rightarrow> json \<times> nat \<Rightarrow> json \<times> nat" where
  "function_responses incl tcID2Name toolResponses [] st = st"
| "function_responses incl tcID2Name toolResponses (fid # fIDs) st =
     function_responses incl tcID2Name toolResponses fIDs
       (function_response incl tcID2Name toolResponses fid st)"

type_synonym loop_state = "json \<times> names \<times> nat"

definition assistant_content ::
  "util \<Rightarrow> bool \<Rightarrow> (nat \<Rightarrow> nat) \<Rightarrow> json option \<Rightarrow> nat \<Rightarrow> json \<times> nat \<times> nat" where
  "assistant_content U incl rnd content k =
     (if is_String content then
        (sjson_Set (new_node ''model'') [Key ''parts'', Append, Key ''text''] (JStr (gjson_String content)), 1, k)
      else if IsArray content then assistant_items U incl rnd (Array content) (new_node ''model'', 0, k)
      else (new_node ''model'', 0, k))"

definition assistant_message ::
  "util \<Rightarrow> bool \<Rightarrow> (nat \<Rightarrow> nat) \<Rightarrow> names \<Rightarrow> json \<Rightarrow> loop_state \<Rightarrow> loop_state" where
  "assistant_message U incl rnd toolResponses m st =
     (case st of (out, tcID2Name, k) \<Rightarrow>
       (case assistant_content U incl rnd (gjson_Get m [''content'']) k of (node, p, k) \<Rightarrow>
         (let tcs = gjson_Get m [''tool_calls''] in
          if IsArray tcs then
            (case tool_calls U incl rnd (Array tcs) (node, p, [], tcID2Name, k) of
               (node, p, fIDs, tcID2Name, k) \<Rightarrow>
                 (let out = contents_append out node in
                  case function_responses incl tcID2Name toolResponses fIDs (new_node ''function'', 0) of
                    (toolNode, pp) \<Rightarrow>
                      ((if pp > 0 then contents_append out toolNode else out), tcID2Name, k)))
          else (contents_append out node, tcID2Name, k))))"

definition message ::
  "util \<Rightarrow> bool \<Rightarrow> (nat \<Rightarrow> nat) \<Rightarrow> names \<Rightarrow> nat \<Rightarrow> json \<Rightarrow> loop_state \<Rightarrow> loop_state" where
  "message U incl rnd toolResponses n m st =
     (case st of (out, tcID2Name, k) \<Rightarrow>
       (let role = gjson_String (gjson_Get m [''role'']);
            content = gjson_Get m [''content'']
        in if role = ''system'' \<and> n > 1 then (system_message content out, tcID2Name, k)
           else if role = ''user'' \<or> (role = ''system'' \<and> n = 1) then
             (user_message U incl tcID2Name content out, tcID2Name, k)
           else if role = ''tool'' then st
           else if role = ''assistant'' then assistant_message U incl rnd toolResponses m st
           else st))"

fun messages_loop ::
  "util \<Rightarrow> bool \<Rightarrow> (nat \<Rightarrow> nat) \<Rightarrow> names \<Rightarrow> nat \<Rightarrow> json list \<Rightarrow> loop_state \<Rightarrow> loop_state" where
  "messages_loop U incl rnd toolResponses n [] st = st"
| "messages_loop U incl rnd toolResponses n (m # arr) st =
     messages_loop U incl rnd toolResponses n arr (message U incl rnd toolResponses n m st)"

definition messages_step :: "util \<Rightarrow> string \<Rightarrow> (nat \<Rightarrow> nat) \<Rightarrow> json \<Rightarrow> json \<Rightarrow> json" where
  "messages_step U modelName rnd rawJSON out =
     (let messages = gjson_Get rawJSON [''messages''] in
      if IsArray messages then
        (let arr = Array messages;
             tcID2Name = first_pass arr Map.empty;
             toolResponses = second_pass arr Map.empty
         in fst (messages_loop U (includeToolIDs modelName) rnd toolResponses (length arr) arr
                   (out, tcID2Name, 0)))
      else out)"


subsection \<open>Tools (lines 464-603)\<close>

definition default_schema :: "json \<Rightarrow> json" where
  "default_schema fnRaw =
     sjson_Set (sjson_Set fnRaw [Key ''parametersJsonSchema'', Key ''type''] (JStr ''object''))
       [Key ''parametersJsonSchema'', Key ''properties''] (JObj [])"

type_synonym tools_state = "json \<times> bool \<times> bool"

definition append_declaration :: "json \<Rightarrow> tools_state \<Rightarrow> tools_state" where
  "append_declaration fnRaw st =
     (case st of (toolNode, hasTool, hasFunction) \<Rightarrow>
       (let toolNode = (if \<not> hasFunction then sjson_Set toolNode [Key ''functionDeclarations''] (JArr [])
                        else toolNode)
        in (sjson_Set toolNode [Key ''functionDeclarations'', Append] fnRaw, True, True)))"

definition function_tool :: "json \<Rightarrow> tools_state \<Rightarrow> tools_state" where
  "function_tool t st =
     (let fn = gjson_Get t [''function''] in
      if Exists fn \<and> IsObject fn then
        (let fnRaw = JObj (members_of fn);
             fnRaw = (if Exists (Get fn [''parameters'']) then
                        (case RenameKey fnRaw ''parameters'' ''parametersJsonSchema'' of
                           Inl errRename \<Rightarrow> default_schema fnRaw
                         | Inr renamed \<Rightarrow> renamed)
                      else default_schema fnRaw);
             fnRaw = sjson_Delete fnRaw [''strict''];
             fnRaw = sjson_Delete fnRaw [''cache_control'']
         in append_declaration fnRaw st)
      else st)"

definition direct_tool :: "json \<Rightarrow> tools_state \<Rightarrow> tools_state" where
  "direct_tool t st =
     (let fnRaw = t;
          fnRaw = (if Exists (gjson_Get t [''input_schema'']) then
                     (case RenameKey fnRaw ''input_schema'' ''parametersJsonSchema'' of
                        Inl errRename \<Rightarrow> sjson_Delete (default_schema fnRaw) [''input_schema'']
                      | Inr renamed \<Rightarrow> renamed)
                   else if Exists (gjson_Get t [''parameters'']) then
                     (case RenameKey fnRaw ''parameters'' ''parametersJsonSchema'' of
                        Inl errRename \<Rightarrow> default_schema fnRaw
                      | Inr renamed \<Rightarrow> renamed)
                   else default_schema fnRaw);
          fnRaw = sjson_Delete fnRaw [''strict''];
          fnRaw = sjson_Delete fnRaw [''cache_control''];
          fnRaw = sjson_Delete fnRaw [''input_schema''];
          fnRaw = sjson_Delete fnRaw [''parametersJsonSchema'', ''additionalProperties'']
      in append_declaration fnRaw st)"

definition google_search_tool :: "json \<Rightarrow> tools_state \<Rightarrow> tools_state" where
  "google_search_tool t st =
     (case st of (toolNode, hasTool, hasFunction) \<Rightarrow>
       (case gjson_Get t [''google_search''] of
          Some gs \<Rightarrow> (sjson_Set toolNode [Key ''googleSearch''] gs, True, hasFunction)
        | None \<Rightarrow> st))"

definition tool_entry :: "json \<Rightarrow> tools_state \<Rightarrow> tools_state" where
  "tool_entry t st =
     google_search_tool t
       (if gjson_String (gjson_Get t [''type'']) = ''function'' then function_tool t st
        else if Exists (gjson_Get t [''name'']) then direct_tool t st
        else st)"

fun tools_loop :: "json list \<Rightarrow> tools_state \<Rightarrow> tools_state" where
  "tools_loop [] st = st"
| "tools_loop (t # ts) st = tools_loop ts (tool_entry t st)"

definition tools_step :: "json \<Rightarrow> json \<Rightarrow> json" where
  "tools_step rawJSON out =
     (let tools = gjson_Get rawJSON [''tools''] in
      if IsArray tools \<and> length (Array tools) > 0 then
        (case tools_loop (Array tools) (JObj [], False, False) of
           (toolNode, hasTool, hasFunction) \<Rightarrow>
             if hasTool then
               (let cleanedToolNode = cleanToolSchema (render toolNode);
                    out = sjson_Set out [Key ''request'', Key ''tools''] (JArr [])
                in sjson_Set out [Key ''request'', Key ''tools'', Idx 0] (JRaw cleanedToolNode))
             else out)
      else out)"

subsection \<open>Tool choice (lines 605-629)\<close>

definition functionCallingConfig :: "string \<Rightarrow> seg list" where
  "functionCallingConfig k = [Key ''request'', Key ''toolConfig'', Key ''functionCallingConfig'', Key k]"

definition tool_choice_step :: "json \<Rightarrow> json \<Rightarrow> json" where
  "tool_choice_step rawJSON out =
     (let tc = gjson_Get rawJSON [''tool_choice''] in
      if Exists tc then
        (case (if is_String tc then
                 (let s = ToLower (TrimSpace (gjson_String tc)) in
                  (if s = ''none'' then ''NONE'' else if s = ''auto'' then ''AUTO''
                   else if s = ''required'' then ''ANY'' else [], out))
               else if IsObject tc then
                 (if gjson_String (Get tc [''type'']) = ''function'' then
                    (let name = gjson_String (Get tc [''function'', ''name'']) in
                     if name \<noteq> [] then
                       (''ANY'', sjson_Set out (functionCallingConfig ''allowedFunctionNames'') (JArr [JStr name]))
                     else ([], out))
                  else ([], out))
               else ([], out)) of
           (mode, out) \<Rightarrow> if mode \<noteq> [] then sjson_Set out (functionCallingConfig ''mode'') (JStr mode) else out)
      else out)"

subsection \<open>The converter\<close>

definition envelope :: json where
  "envelope = JObj [(''project'', JStr []), (''request'', JObj [(''contents'', JArr [])]),
                    (''model'', JStr ''gemini-2.5-pro'')]"

definition ConvertOpenAIRequestToAntigravity ::
  "util \<Rightarrow> (nat \<Rightarrow> nat) \<Rightarrow> string \<Rightarrow> json \<Rightarrow> json" where
  "ConvertOpenAIRequestToAntigravity U rnd modelName rawJSON =
     (let out = sjson_Set envelope [Key ''model''] (JStr modelName);
          out = thinking_steps U modelName rawJSON out;
          out = generation_steps rawJSON out;
          out = messages_step U modelName rnd rawJSON out;
          out = tools_step rawJSON out;
          out = tool_choice_step rawJSON out
      in AttachDefaultSafetySettings U out)"






subsection \<open>A reference instance of the helpers\<close>

text \<open>
  Modelled from the spec: the helper functions of the packages util, misc and common
  (\<^verbatim>\<open>ModelSupportsThinking\<close>, \<^verbatim>\<open>IsGemini3Model\<close>, \<^verbatim>\<open>ModelUsesThinkingLevels\<close>,
  \<^verbatim>\<open>ValidateGemini3ThinkingLevel\<close>, \<^verbatim>\<open>ApplyGeminiCLIThinkingLevel\<close>,
  \<^verbatim>\<open>ApplyReasoningEffortToGeminiCLI\<close>, \<^verbatim>\<open>MimeTypes\<close>, \<^verbatim>\<open>AttachDefaultSafetySettings\<close>) and
  \<^verbatim>\<open>gjson.Valid\<close> are not among the sources, so the converter takes them as the parameter
  \<open>U\<close>. The instance below is used only to run the converter on concrete requests: Gemini 3
  models form the thinking-levels family, other Gemini models and Claude models take a
  numeric budget, \<open>reasoning_effort\<close> maps to a level string or to a budget, and the safety
  settings are attached under \<open>request.safetySettings\<close> when absent. The budget table and the
  default safety list are not given by the spec; the values here stand for them, and
  \<open>Valid\<close> accepts a text that begins, after white space, with an opening brace or bracket.
\<close>

definition effort_budget :: "string \<Rightarrow> int option" where
  "effort_budget effort =
     (if effort = ''none'' then Some 0
      else if effort = ''auto'' then Some (- 1)
      else if effort = ''low'' then Some 1024
      else if effort = ''medium'' then Some 8192
      else if effort = ''high'' then Some 24576
      else None)"

definition helpers :: util where
  "helpers =
     \<lparr> ModelSupportsThinking =
         (\<lambda>m. Contains (ToLower m) ''gemini'' \<or> Contains (ToLower m) ''claude''),
       IsGemini3Model = (\<lambda>m. Contains (ToLower m) ''gemini-3''),
       ModelUsesThinkingLevels = (\<lambda>m. Contains (ToLower m) ''gemini-3''),
       ValidateGemini3ThinkingLevel =
         (\<lambda>m effort. if effort = ''low'' \<or> effort = ''medium'' \<or> effort = ''high'' then Some effort else None),
       ApplyGeminiCLIThinkingLevel =
         (\<lambda>out level includeThoughts.
            (let out = (if level \<noteq> [] then sjson_Set out (map Key thinkingConfig @ [Key ''thinkingLevel'']) (JStr level)
                        else out)
             in case includeThoughts of
                  Some b \<Rightarrow> sjson_Set out include_thoughts (JBool b)
                | None \<Rightarrow> out)),
       ApplyReasoningEffortToGeminiCLI =
         (\<lambda>out effort.
            case effort_budget effort of
              Some budget \<Rightarrow>
                sjson_Set (sjson_Set out thinkingBudget (JNum budget)) include_thoughts (JBool (budget \<noteq> 0))
            | None \<Rightarrow> out),
       MimeTypes = (\<lambda>ext. if ext = ''pdf'' then Some ''application/pdf'' else None),
       AttachDefaultSafetySettings =
         (\<lambda>out. if Exists (gjson_Get out [''request'', ''safetySettings'']) then out
                 else sjson_Set out [Key ''request'', Key ''safetySettings''] (JArr [])),
       Valid = (\<lambda>s. gjson_Parse_JSON s \<noteq> None) \<rparr>"

section \<open>Usage persistence\<close>


type_synonym time = int

record timefmt =
  Format :: "time \<Rightarrow> string"
  Parse :: "string \<Rightarrow> time option"

record TokenStats =
  InputTokens :: int
  OutputTokens :: int
  ReasoningTokens :: int
  CachedTokens :: int
  TotalTokens :: int

record RequestDetail =
  Timestamp :: time
  Source :: string
  AuthIndex :: string
  Tokens :: TokenStats
  Failed :: bool

record usage_row =
  api_name :: string
  model_name :: string
  timestamp :: string
  source :: string
  auth_index :: string
  input_tokens :: int
  output_tokens :: int
  reasoning_tokens :: int
  cached_tokens :: int
  total_tokens :: int
  failed :: int

datatype db_op = OpenDB | PingDB | CreateTable | CreateTimestampIndex | CreateApiModelIndex
  | InsertRow | QueryRows | ScanRow | IterateRows

datatype usage_error = SqliteError db_op | AlreadyEnabled

record dbfile =
  has_table :: bool
  rows :: "usage_row list"
  failing :: "db_op list"

definition fails :: "dbfile \<Rightarrow> db_op \<Rightarrow> bool" where
  "fails f opn \<longleftrightarrow> opn \<in> set (failing f)"

definition boolToInt :: "bool \<Rightarrow> int" where
  "boolToInt b = (if b then 1 else 0)"

definition EnsureSchema :: "dbfile \<Rightarrow> usage_error option \<times> dbfile" where
  "EnsureSchema f =
     (if fails f CreateTable then (Some (SqliteError CreateTable), f)
      else if fails f CreateTimestampIndex then (Some (SqliteError CreateTimestampIndex), f\<lparr>has_table := True\<rparr>)
      else if fails f CreateApiModelIndex then (Some (SqliteError CreateApiModelIndex), f\<lparr>has_table := True\<rparr>)
      else (None, f\<lparr>has_table := True\<rparr>))"

definition to_row :: "timefmt \<Rightarrow> string \<Rightarrow> string \<Rightarrow> RequestDetail \<Rightarrow> usage_row" where
  "to_row T apiName modelName detail =
     \<lparr> api_name = apiName, model_name = modelName, timestamp = Format T (Timestamp detail),
       source = Source detail, auth_index = AuthIndex detail,
       input_tokens = InputTokens (Tokens detail), output_tokens = OutputTokens (Tokens detail),
       reasoning_tokens = ReasoningTokens (Tokens detail), cached_tokens = CachedTokens (Tokens detail),
       total_tokens = TotalTokens (Tokens detail), failed = boolToInt (Failed detail) \<rparr>"

definition InsertRecord ::
  "timefmt \<Rightarrow> string \<Rightarrow> string \<Rightarrow> RequestDetail \<Rightarrow> dbfile \<Rightarrow> usage_error option \<times> dbfile" where
  "InsertRecord T apiName modelName detail f =
     (if \<not> has_table f \<or> fails f InsertRow then (Some (SqliteError InsertRow), f)
      else (None, f\<lparr>rows := rows f @ [to_row T apiName modelName detail]\<rparr>))"

type_synonym records = "(string \<times> (string \<times> RequestDetail list) list) list"

definition lookup :: "records \<Rightarrow> string \<Rightarrow> string \<Rightarrow> RequestDetail list" where
  "lookup result apiName modelName =
     (case map_of result apiName of
        None \<Rightarrow> []
      | Some models \<Rightarrow> (case map_of models modelName of None \<Rightarrow> [] | Some details \<Rightarrow> details))"

fun put :: "('k \<times> 'v) list \<Rightarrow> 'k \<Rightarrow> 'v \<Rightarrow> ('k \<times> 'v) list" where
  "put [] k v = [(k, v)]"
| "put (kv # kvs) k v = (if fst kv = k then (k, v) # kvs else kv # put kvs k v)"

definition append_detail :: "records \<Rightarrow> string \<Rightarrow> string \<Rightarrow> RequestDetail \<Rightarrow> records" where
  "append_detail result apiName modelName detail =
     (let models = (case map_of result apiName of None \<Rightarrow> [] | Some ms \<Rightarrow> ms)
      in put result apiName (put models modelName (lookup result apiName modelName @ [detail])))"

definition to_detail :: "usage_row \<Rightarrow> time \<Rightarrow> RequestDetail" where
  "to_detail r ts =
     \<lparr> Timestamp = ts, Source = source r, AuthIndex = auth_index r,
       Tokens = \<lparr> InputTokens = input_tokens r, OutputTokens = output_tokens r,
                  ReasoningTokens = reasoning_tokens r, CachedTokens = cached_tokens r,
                  TotalTokens = total_tokens r \<rparr>,
       Failed = (failed r \<noteq> 0) \<rparr>"

fun scan_rows :: "timefmt \<Rightarrow> usage_row list \<Rightarrow> records \<times> string list \<Rightarrow> records \<times> string list" where
  "scan_rows T [] st = st"
| "scan_rows T (r # rs) (result, warnings) =
     (case Parse T (timestamp r) of
        None \<Rightarrow> scan_rows T rs (result, warnings @ [timestamp r])
      | Some ts \<Rightarrow> scan_rows T rs (append_detail result (api_name r) (model_name r) (to_detail r ts), warnings))"

definition LoadAll :: "timefmt \<Rightarrow> dbfile \<Rightarrow> usage_error + (records \<times> string list)" where
  "LoadAll T f =
     (if \<not> has_table f \<or> fails f QueryRows then Inl (SqliteError QueryRows)
      else if rows f \<noteq> [] \<and> fails f ScanRow then Inl (SqliteError ScanRow)
      else if fails f IterateRows then Inl (SqliteError IterateRows)
      else Inr (scan_rows T (sort_key timestamp (rows f)) ([], [])))"


subsection \<open>The persistence plugin\<close>

record writeRequest =
  req_apiName :: string
  req_modelName :: string
  req_detail :: RequestDetail

record Detail =
  Detail_InputTokens :: int
  Detail_OutputTokens :: int
  Detail_ReasoningTokens :: int
  Detail_CachedTokens :: int
  Detail_TotalTokens :: int

record Record =
  Provider :: string
  Model :: string
  APIKey :: string
  Record_Source :: string
  Record_AuthIndex :: string
  RequestedAt :: time
  Record_Failed :: bool
  Record_Detail :: Detail

record SQLitePersistencePlugin =
  store :: string
  writeCh :: "writeRequest list"
  cancelled :: bool

definition capacity :: nat where
  "capacity = 1000"

definition NewSQLitePersistencePlugin :: "string \<Rightarrow> SQLitePersistencePlugin" where
  "NewSQLitePersistencePlugin dbPath = \<lparr> store = dbPath, writeCh = [], cancelled = False \<rparr>"

definition queue_full_warning :: string where
  "queue_full_warning = ''usage persistence: queue full, record dropped''"

definition to_request :: "Record \<Rightarrow> writeRequest" where
  "to_request record =
     \<lparr> req_apiName = (if APIKey record = [] then ''unknown'' else APIKey record),
       req_modelName = Model record,
       req_detail = \<lparr> Timestamp = RequestedAt record, Source = Record_Source record,
                  AuthIndex = Record_AuthIndex record,
                  Tokens = \<lparr> InputTokens = Detail_InputTokens (Record_Detail record),
                             OutputTokens = Detail_OutputTokens (Record_Detail record),
                             ReasoningTokens = Detail_ReasoningTokens (Record_Detail record),
                             CachedTokens = Detail_CachedTokens (Record_Detail record),
                             TotalTokens = Detail_TotalTokens (Record_Detail record) \<rparr>,
                  Failed = Record_Failed record \<rparr> \<rparr>"

definition HandleUsage ::
  "Record \<Rightarrow> SQLitePersistencePlugin \<times> string list \<Rightarrow> SQLitePersistencePlugin \<times> string list" where
  "HandleUsage record st =
     (case st of (p, warnings) \<Rightarrow>
       if length (writeCh p) < capacity then (p\<lparr>writeCh := writeCh p @ [to_request record]\<rparr>, warnings)
       else (p, warnings @ [queue_full_warning]))"

fun HandleUsage_all ::
  "Record list \<Rightarrow> SQLitePersistencePlugin \<times> string list \<Rightarrow> SQLitePersistencePlugin \<times> string list" where
  "HandleUsage_all [] st = st"
| "HandleUsage_all (r # rs) st = HandleUsage_all rs (HandleUsage r st)"


definition writer_step ::
  "timefmt \<Rightarrow> SQLitePersistencePlugin \<times> dbfile \<Rightarrow> SQLitePersistencePlugin \<times> dbfile" where
  "writer_step T st =
     (case st of (p, f) \<Rightarrow>
       (case writeCh p of
          [] \<Rightarrow> st
        | req # rest \<Rightarrow>
            (p\<lparr>writeCh := rest\<rparr>, snd (InsertRecord T (req_apiName req) (req_modelName req) (req_detail req) f))))"

fun drain :: "timefmt \<Rightarrow> writeRequest list \<Rightarrow> dbfile \<Rightarrow> dbfile" where
  "drain T [] f = f"
| "drain T (req # rest) f = drain T rest (snd (InsertRecord T (req_apiName req) (req_modelName req) (req_detail req) f))"

definition Stop :: "timefmt \<Rightarrow> SQLitePersistencePlugin \<times> dbfile \<Rightarrow> SQLitePersistencePlugin \<times> dbfile" where
  "Stop T st = (case st of (p, f) \<Rightarrow> (p\<lparr>writeCh := [], cancelled := True\<rparr>, drain T (writeCh p) f))"

subsection \<open>In-memory statistics\<close>

record statistics =
  total_requests :: int
  total_tokens_sum :: TokenStats

definition add_tokens :: "TokenStats \<Rightarrow> TokenStats \<Rightarrow> TokenStats" where
  "add_tokens a b =
     \<lparr> InputTokens = InputTokens a + InputTokens b, OutputTokens = OutputTokens a + OutputTokens b,
       ReasoningTokens = ReasoningTokens a + ReasoningTokens b,
       CachedTokens = CachedTokens a + CachedTokens b, TotalTokens = TotalTokens a + TotalTokens b \<rparr>"

definition recordDetail :: "string \<Rightarrow> string \<Rightarrow> RequestDetail \<Rightarrow> statistics \<Rightarrow> statistics" where
  "recordDetail apiName modelName detail s =
     \<lparr> total_requests = total_requests s + 1,
       total_tokens_sum = add_tokens (total_tokens_sum s) (Tokens detail) \<rparr>"

subsection \<open>Enabling and disabling persistence\<close>

record world =
  disk :: "string \<Rightarrow> dbfile"
  open_stores :: "string list"
  persistencePlugin :: "SQLitePersistencePlugin option"
  stats :: statistics
  registered :: "string list"
  log :: "string list"

definition NewSQLiteStore :: "string \<Rightarrow> world \<Rightarrow> usage_error + world" where
  "NewSQLiteStore dbPath w =
     (if fails (disk w dbPath) OpenDB then Inl (SqliteError OpenDB)
      else if fails (disk w dbPath) PingDB then Inl (SqliteError PingDB)
      else Inr (w\<lparr>open_stores := dbPath # open_stores w\<rparr>))"

definition Close :: "string \<Rightarrow> world \<Rightarrow> world" where
  "Close dbPath w = w\<lparr>open_stores := remove1 dbPath (open_stores w)\<rparr>"

definition write_file :: "string \<Rightarrow> dbfile \<Rightarrow> world \<Rightarrow> world" where
  "write_file dbPath f w = w\<lparr>disk := (disk w)(dbPath := f)\<rparr>"

fun merge_details :: "string \<Rightarrow> string \<Rightarrow> RequestDetail list \<Rightarrow> statistics \<times> nat \<Rightarrow> statistics \<times> nat" where
  "merge_details apiName modelName [] st = st"
| "merge_details apiName modelName (d # ds) (s, recordCount) =
     merge_details apiName modelName ds (recordDetail apiName modelName d s, recordCount + 1)"

fun merge_models ::
  "string \<Rightarrow> (string \<times> RequestDetail list) list \<Rightarrow> statistics \<times> nat \<Rightarrow> statistics \<times> nat" where
  "merge_models apiName [] st = st"
| "merge_models apiName (m # models) st =
     merge_models apiName models (merge_details apiName (fst m) (snd m) st)"

fun merge_records :: "records \<Rightarrow> statistics \<times> nat \<Rightarrow> statistics \<times> nat" where
  "merge_records [] st = st"
| "merge_records (a # rs) st = merge_records rs (merge_models (fst a) (snd a) st)"

definition loaded_message :: "nat \<Rightarrow> string" where
  "loaded_message n = ''usage persistence: loaded records from database''"

definition register_plugin :: "string \<Rightarrow> world \<Rightarrow> world" where
  "register_plugin dbPath w =
     w\<lparr>persistencePlugin := Some (NewSQLitePersistencePlugin dbPath), registered := registered w @ [dbPath]\<rparr>"

definition merge_loaded :: "records \<times> string list \<Rightarrow> world \<Rightarrow> world" where
  "merge_loaded loaded w =
     (case merge_records (fst loaded) (stats w, 0) of
        (s, recordCount) \<Rightarrow> w\<lparr>stats := s, log := log w @ snd loaded @ [loaded_message recordCount]\<rparr>)"

definition EnablePersistence :: "timefmt \<Rightarrow> string \<Rightarrow> world \<Rightarrow> usage_error option \<times> world" where
  "EnablePersistence T dbPath w =
     (if persistencePlugin w \<noteq> None then (Some AlreadyEnabled, w)
      else
        (case NewSQLiteStore dbPath w of
           Inl err \<Rightarrow> (Some err, w)
         | Inr w \<Rightarrow>
             (case EnsureSchema (disk w dbPath) of
                (Some err, f) \<Rightarrow> (Some err, Close dbPath (write_file dbPath f w))
              | (None, f) \<Rightarrow>
                  (case LoadAll T f of
                     Inl err \<Rightarrow> (Some err, Close dbPath (write_file dbPath f w))
                   | Inr loaded \<Rightarrow>
                       (None, register_plugin dbPath (merge_loaded loaded (write_file dbPath f w)))))))"

definition DisablePersistence :: "timefmt \<Rightarrow> world \<Rightarrow> world" where
  "DisablePersistence T w =
     (case persistencePlugin w of
        None \<Rightarrow> w
      | Some p \<Rightarrow>
          (case Stop T (p, disk w (store p)) of
             (p', f) \<Rightarrow> (Close (store p) (write_file (store p) f w))\<lparr>persistencePlugin := None\<rparr>))"


section \<open>Concrete requests and records\<close>




definition mk_node :: "string \<Rightarrow> json list \<Rightarrow> json" where
  "mk_node role ps = JObj [(''role'', JStr role), (''parts'', JArr ps)]"

definition inline_part :: "string \<Rightarrow> string \<Rightarrow> json" where
  "inline_part mime data = JObj [(''inlineData'', JObj [(''mime_type'', JStr mime), (''data'', JStr data)])]"








definition missing_id_request :: json where
  "missing_id_request =
     JObj [(''messages'', JArr [
        JObj [(''role'', JStr ''assistant''), (''content'', JArr [
                 JObj [(''type'', JStr ''tool_use''), (''name'', JStr ''lookup''), (''input'', JObj [])]]),
              (''tool_calls'', JArr [
                 JObj [(''type'', JStr ''function''),
                       (''function'', JObj [(''name'', JStr ''add''), (''arguments'', JStr ''{}'')])]])]])]"

text \<open>
  The producers and the single writer run concurrently; a run is modelled by the order in
  which their steps take effect on the queue.
\<close>

datatype event = Usage Record | WriterStep

fun run ::
  "timefmt \<Rightarrow> event list \<Rightarrow> (SQLitePersistencePlugin \<times> string list) \<times> dbfile \<Rightarrow>
     (SQLitePersistencePlugin \<times> string list) \<times> dbfile" where
  "run T [] st = st"
| "run T (Usage record # es) (pw, f) = run T es (HandleUsage record pw, f)"
| "run T (WriterStep # es) ((p, warnings), f) =
     (case writer_step T (p, f) of (p', f') \<Rightarrow> run T es ((p', warnings), f'))"

definition usages :: "event list \<Rightarrow> nat" where
  "usages es = length (filter (\<lambda>e. e \<noteq> WriterStep) es)"

text \<open>
  A stand-in for the time package, used only to evaluate examples: a time is a count of
  nanoseconds and is stored in decimal.
\<close>

definition decimal_time :: timefmt where
  "decimal_time = \<lparr> Format = show_int, Parse = parseInt \<rparr>"

definition sample_record :: Record where
  "sample_record =
     \<lparr> Provider = ''test-provider'', Model = ''test-model'', APIKey = ''test-api-key'',
       Record_Source = ''test-source'', Record_AuthIndex = ''0'', RequestedAt = 1700000000,
       Record_Failed = False,
       Record_Detail = \<lparr> Detail_InputTokens = 100, Detail_OutputTokens = 50, Detail_ReasoningTokens = 0,
                          Detail_CachedTokens = 0, Detail_TotalTokens = 150 \<rparr> \<rparr>"

definition full_plugin :: SQLitePersistencePlugin where
  "full_plugin = \<lparr> store = ''usage.db'', writeCh = replicate 1000 (to_request sample_record), cancelled = False \<rparr>"

definition empty_db :: dbfile where
  "empty_db = \<lparr> has_table = True, rows = [], failing = [] \<rparr>"

definition response_result :: "string option \<Rightarrow> json option" where
  "response_result stored =
     (let resp = (case stored of None \<Rightarrow> [] | Some r \<Rightarrow> r);
          resp = (if resp = [] then ''{}'' else resp)
      in if resp = ''null'' then None
         else (case gjson_Parse_JSON resp of Some raw \<Rightarrow> Some (JRaw raw) | None \<Rightarrow> Some (JStr resp)))"

definition response_part :: "bool \<Rightarrow> string \<Rightarrow> string \<Rightarrow> json option \<Rightarrow> json" where
  "response_part incl name fid result =
     JObj [(''functionResponse'',
            JObj ([(''name'', JStr name)] @ (if incl then [(''id'', JStr fid)] else []) @
                  (case result of None \<Rightarrow> [] | Some v \<Rightarrow> [(''response'', JObj [(''result'', v)])])))]"

definition response_parts :: "bool \<Rightarrow> names \<Rightarrow> names \<Rightarrow> string list \<Rightarrow> json list" where
  "response_parts incl tcID2Name toolResponses fIDs =
     List.map_filter
       (\<lambda>fid. case tcID2Name fid of
                 None \<Rightarrow> None
               | Some name \<Rightarrow> Some (response_part incl name fid (response_result (toolResponses fid))))
       fIDs"

definition text_part :: "string \<Rightarrow> json" where
  "text_part s = JObj [(''text'', JStr s)]"

definition args_members :: "util \<Rightarrow> string \<Rightarrow> (string \<times> json) list" where
  "args_members U fargs =
     (if Valid U fargs then [(''args'', JRaw fargs)] else [(''args'', JObj [(''params'', JStr fargs)])])"

definition call_part :: "util \<Rightarrow> bool \<Rightarrow> string \<Rightarrow> string \<Rightarrow> string \<Rightarrow> json" where
  "call_part U incl fname fid fargs =
     JObj [(''functionCall'',
            JObj ([(''name'', JStr fname)] @ (if incl \<and> fid \<noteq> [] then [(''id'', JStr fid)] else []) @
                  args_members U fargs))]"

definition result_part :: "bool \<Rightarrow> string \<Rightarrow> string \<Rightarrow> string \<Rightarrow> json" where
  "result_part incl name toolID contentStr =
     JObj [(''functionResponse'',
            JObj ([(''name'', JStr name)] @ (if incl \<and> toolID \<noteq> [] then [(''id'', JStr toolID)] else []) @
                  [(''response'', JObj [(''result'', JStr contentStr)])]))]"

definition call_name :: "json \<Rightarrow> string" where
  "call_name tc = gjson_String (gjson_Get tc [''function'', ''name''])"

definition call_args :: "json \<Rightarrow> string" where
  "call_args tc = gjson_String (gjson_Get tc [''function'', ''arguments''])"

definition call_id :: "json \<Rightarrow> string" where
  "call_id tc = gjson_String (gjson_Get tc [''id''])"

definition is_function_call :: "json \<Rightarrow> bool" where
  "is_function_call tc \<longleftrightarrow>
     gjson_String (gjson_Get tc [''type'']) = ''function'' \<or> gjson_String (gjson_Get tc [''type'']) = []"

definition carries_id :: "bool \<Rightarrow> json option \<Rightarrow> bool" where
  "carries_id incl r =
     (if incl then (case r of Some (JStr fid) \<Rightarrow> fid \<noteq> [] | _ \<Rightarrow> False) else r = None)"

definition id_policy :: "bool \<Rightarrow> json \<Rightarrow> bool" where
  "id_policy incl part \<longleftrightarrow>
     (case gjson_Get part [''functionCall''] of
        None \<Rightarrow> True
      | Some fc \<Rightarrow> carries_id incl (gjson_Get fc [''id''])) \<and>
     (case gjson_Get part [''functionResponse''] of
        None \<Rightarrow> True
      | Some fr \<Rightarrow> carries_id incl (gjson_Get fr [''id'']))"

definition parts_of :: "json \<Rightarrow> json list" where
  "parts_of node = elems_of (gjson_Get node [''parts''])"

definition contents_of :: "json \<Rightarrow> json list" where
  "contents_of out = elems_of (gjson_Get out [''request'', ''contents''])"

definition node_policy :: "bool \<Rightarrow> json \<Rightarrow> bool" where
  "node_policy incl node \<longleftrightarrow> list_all (id_policy incl) (parts_of node)"

definition tool_round_trip :: json where
  "tool_round_trip =
     JObj [(''messages'', JArr [
        JObj [(''role'', JStr ''assistant''), (''tool_calls'', JArr [
           JObj [(''id'', JStr ''call_1''), (''type'', JStr ''function''),
                 (''function'', JObj [(''name'', JStr ''add''), (''arguments'', JStr ''{}'')])],
           JObj [(''type'', JStr ''function''),
                 (''function'', JObj [(''name'', JStr ''sub''), (''arguments'', JStr ''{}'')])]])],
        JObj [(''role'', JStr ''tool''), (''tool_call_id'', JStr ''call_1''),
              (''content'', JObj [(''r'', JNum 2)])]])]"

definition claude_round_trip :: json where
  "claude_round_trip =
     JObj [(''messages'', JArr [
        JObj [(''role'', JStr ''assistant''), (''tool_calls'', JArr [
           JObj [(''id'', JStr ''call_1''), (''type'', JStr ''function''),
                 (''function'', JObj [(''name'', JStr ''add''), (''arguments'', JStr ''{}'')])]])],
        JObj [(''role'', JStr ''tool''), (''tool_call_id'', JStr ''call_1''),
              (''content'', JObj [(''r'', JNum 2)])]])]"

definition call_without_id :: json where
  "call_without_id =
     JObj [(''type'', JStr ''function''),
           (''function'', JObj [(''name'', JStr ''sub''), (''arguments'', JStr ''{}'')])]"

fun assigned_ids :: "bool \<Rightarrow> (nat \<Rightarrow> nat) \<Rightarrow> json list \<Rightarrow> nat \<Rightarrow> string list" where
  "assigned_ids incl rnd [] k = []"
| "assigned_ids incl rnd (tc # tcs) k =
     (if is_function_call tc
      then fst (fresh_id incl rnd (call_id tc) k) # assigned_ids incl rnd tcs (snd (fresh_id incl rnd (call_id tc) k))
      else assigned_ids incl rnd tcs k)"

definition function_ids :: "calls_state \<Rightarrow> string list" where
  "function_ids st = (case st of (node, p, fIDs, tcID2Name, k) \<Rightarrow> fIDs)"

definition draws :: "calls_state \<Rightarrow> nat" where
  "draws st = (case st of (node, p, fIDs, tcID2Name, k) \<Rightarrow> k)"

definition answers :: "json \<Rightarrow> string \<Rightarrow> bool" where
  "answers m fid \<longleftrightarrow>
     gjson_String (gjson_Get m [''role'']) = ''tool'' \<and> gjson_String (gjson_Get m [''tool_call_id'']) = fid"

definition string_content_request :: json where
  "string_content_request =
     JObj [(''messages'', JArr [
        JObj [(''role'', JStr ''assistant''), (''tool_calls'', JArr [
           JObj [(''id'', JStr ''call_1''), (''type'', JStr ''function''),
                 (''function'', JObj [(''name'', JStr ''add''), (''arguments'', JStr ''{}'')])]])],
        JObj [(''role'', JStr ''tool''), (''tool_call_id'', JStr ''call_1''),
              (''content'', JStr (render (JObj [(''r'', JNum 2)])))]])]"

definition no_id_request :: json where
  "no_id_request =
     JObj [(''messages'', JArr [
        JObj [(''role'', JStr ''assistant''), (''tool_calls'', JArr [
           JObj [(''type'', JStr ''function''),
                 (''function'', JObj [(''name'', JStr ''add''), (''arguments'', JStr ''{}'')])]])]])]"

definition add_call :: json where
  "add_call = JObj [(''id'', JStr ''call_1''), (''type'', JStr ''function''),
                    (''function'', JObj [(''name'', JStr ''add''), (''arguments'', JStr ''{}'')])]"

definition assistant_calls :: json where
  "assistant_calls = JObj [(''role'', JStr ''assistant''), (''tool_calls'', JArr [add_call, call_without_id])]"

definition tool_answer :: json where
  "tool_answer = JObj [(''role'', JStr ''tool''), (''tool_call_id'', JStr ''call_1''),
                       (''content'', JObj [(''r'', JNum 2)])]"

section \<open>Properties of the schema cleaner\<close>













lemma match_core_Nil: "match_core [] = None"
  by (simp add: match_core_def key_literal_def)
















section \<open>Tool schemas: additionalProperties\<close>

lemma map_of_put_member: "map_of (put_member kvs k v) k = Some v"
  by (induction kvs) auto

lemma map_of_put_member_other: "k' \<noteq> k \<Longrightarrow> map_of (put_member kvs k v) k' = map_of kvs k'"
  by (induction kvs) auto





section \<open>Content nodes\<close>

text \<open>
  A content node under construction is \<open>mk_node role ps\<close> and the part counter of the
  source (\<open>p\<close>, \<open>pp\<close>) is \<open>length ps\<close>: writing at index \<open>p\<close> appends a part, writing
  again at the same index updates the part just appended.
\<close>

lemma new_node_mk: "new_node role = mk_node role []"
  by (simp add: new_node_def mk_node_def)

lemma set_new_part2:
  "sjson_Set (mk_node role ps) [Key ''parts'', Idx (length ps), Key a, Key b] v
     = mk_node role (ps @ [JObj [(a, JObj [(b, v)])]])"
  by (simp add: sjson_Set_def mk_node_def put_elem_def nth_opt_def)

lemma set_new_part1:
  "sjson_Set (mk_node role ps) [Key ''parts'', Idx (length ps), Key a] v
     = mk_node role (ps @ [JObj [(a, v)]])"
  by (simp add: sjson_Set_def mk_node_def put_elem_def nth_opt_def)

lemma set_new_part0:
  "sjson_Set (mk_node role ps) [Key ''parts'', Idx (length ps)] v = mk_node role (ps @ [v])"
  by (simp add: sjson_Set_def mk_node_def put_elem_def nth_opt_def)

lemma set_last_part:
  "sjson_Set (mk_node role (ps @ [x])) (Key ''parts'' # Idx (length ps) # path) v
     = mk_node role (ps @ [set_at (Some x) path v])"
  by (simp add: sjson_Set_def mk_node_def put_elem_def nth_opt_def)

lemma inlineData_mk:
  "inlineData (mk_node role ps) (length ps) mime data = mk_node role (ps @ [inline_part mime data])"
  by (simp add: inlineData_def set_new_part2 set_last_part inline_part_def)

section \<open>Image URLs\<close>








section \<open>Reasoning precedence\<close>






section \<open>Determinism for models that are not Claude-like\<close>

text \<open>
  The random source \<open>rnd\<close> is read by \<open>genToolCallID\<close> only, and \<open>fresh_id\<close> calls it only
  when tool ids are included.
\<close>

lemma fresh_id_off: "fresh_id False rnd fid k = (fid, k)"
  by (simp add: fresh_id_def)

lemma tool_use_item_off: "tool_use_item U False rnd item st = tool_use_item U False rnd' item st"
  unfolding tool_use_item_def fresh_id_off ..

lemma assistant_item_off: "assistant_item U False rnd item st = assistant_item U False rnd' item st"
  unfolding assistant_item_def tool_use_item_off[of U rnd _ _ rnd'] ..

lemma assistant_items_off:
  "assistant_items U False rnd items st = assistant_items U False rnd' items st"
proof (induction items arbitrary: st)
  case Nil
  show ?case by simp
next
  case (Cons item items)
  show ?case
    unfolding assistant_items.simps assistant_item_off[of U rnd _ _ rnd'] by (rule Cons.IH)
qed

lemma tool_call_off: "tool_call U False rnd tc st = tool_call U False rnd' tc st"
  unfolding tool_call_def fresh_id_off ..

lemma tool_calls_off: "tool_calls U False rnd tcs st = tool_calls U False rnd' tcs st"
proof (induction tcs arbitrary: st)
  case Nil
  show ?case by simp
next
  case (Cons tc tcs)
  show ?case
    unfolding tool_calls.simps tool_call_off[of U rnd _ _ rnd'] by (rule Cons.IH)
qed

lemma assistant_content_off:
  "assistant_content U False rnd content k = assistant_content U False rnd' content k"
  unfolding assistant_content_def assistant_items_off[of U rnd _ _ rnd'] ..

lemma assistant_message_off:
  "assistant_message U False rnd toolResponses m st = assistant_message U False rnd' toolResponses m st"
  unfolding assistant_message_def assistant_content_off[of U rnd _ _ rnd']
    tool_calls_off[of U rnd _ _ rnd'] ..

lemma messages_loop_off:
  "messages_loop U False rnd toolResponses n arr st = messages_loop U False rnd' toolResponses n arr st"
proof (induction arr arbitrary: st)
  case Nil
  show ?case by simp
next
  case (Cons m arr)
  show ?case
    unfolding messages_loop.simps message_def assistant_message_off[of U rnd _ _ _ rnd']
    by (rule Cons.IH)
qed

text \<open>
  Claim C9: for a model name that does not contain \<open>claude\<close> (case-insensitively), the
  output of \<open>ConvertOpenAIRequestToAntigravity\<close> does not depend on the random source: two
  runs on the same model name and request give the same document, whatever numbers the
  generator would have returned.
\<close>

theorem non_claude_conversion_deterministic:
  assumes "\<not> includeToolIDs modelName"
  shows "ConvertOpenAIRequestToAntigravity U rnd modelName rawJSON
           = ConvertOpenAIRequestToAntigravity U rnd' modelName rawJSON"
proof -
  from assms have off: "includeToolIDs modelName = False" by simp
  show ?thesis
    unfolding ConvertOpenAIRequestToAntigravity_def messages_step_def off
      messages_loop_off[of U rnd _ _ _ _ rnd'] ..
qed

theorem non_claude_conversion_deterministic_witness:
  "\<not> includeToolIDs ''gemini-2.5-pro'' \<and>
   ConvertOpenAIRequestToAntigravity helpers (\<lambda>i. 0) ''gemini-2.5-pro'' missing_id_request
     = ConvertOpenAIRequestToAntigravity helpers (\<lambda>i. i) ''gemini-2.5-pro'' missing_id_request"
proof -
  have a: "\<not> includeToolIDs ''gemini-2.5-pro''" by code_simp
  from non_claude_conversion_deterministic[OF a, of helpers "\<lambda>i. 0" missing_id_request "\<lambda>i. i"] a
  show ?thesis by simp
qed

section \<open>Usage ingress\<close>

lemma HandleUsage_cases:
  "(length (writeCh p) < capacity \<longrightarrow>
      HandleUsage record (p, warnings) = (p\<lparr>writeCh := writeCh p @ [to_request record]\<rparr>, warnings)) \<and>
   (capacity \<le> length (writeCh p) \<longrightarrow>
      HandleUsage record (p, warnings) = (p, warnings @ [queue_full_warning]))"
  by (simp add: HandleUsage_def)

lemma writer_step_queue:
  "writer_step T (p, f) = (p', f') \<Longrightarrow> length (writeCh p') \<le> length (writeCh p)"
  by (auto simp: writer_step_def split: list.splits)

lemma run_invariant:
  "run T es ((p, warnings), f) = ((p', warnings'), f') \<Longrightarrow> length (writeCh p) \<le> capacity \<Longrightarrow>
     length (writeCh p') \<le> capacity \<and>
     (\<exists>new. warnings' = warnings @ new \<and> set new \<subseteq> {queue_full_warning} \<and> length new \<le> usages es)"
proof (induction es arbitrary: p warnings f)
  case Nil
  then show ?case by (simp add: usages_def)
next
  case (Cons e es)
  show ?case
  proof (cases e)
    case (Usage r)
    obtain p1 w1 where h: "HandleUsage r (p, warnings) = (p1, w1)" by (cases "HandleUsage r (p, warnings)")
    have q1: "length (writeCh p1) \<le> capacity"
      and w1: "\<exists>n1. w1 = warnings @ n1 \<and> set n1 \<subseteq> {queue_full_warning} \<and> length n1 \<le> 1"
      using h Cons.prems(2) by (auto simp: HandleUsage_def split: if_splits)
    from Cons.prems(1) Usage h have "run T es ((p1, w1), f) = ((p', warnings'), f')" by simp
    from Cons.IH[OF this q1] obtain new where
      n: "length (writeCh p') \<le> capacity" "warnings' = w1 @ new" "set new \<subseteq> {queue_full_warning}"
         "length new \<le> usages es"
      by blast
    from w1 obtain n1 where n1: "w1 = warnings @ n1" "set n1 \<subseteq> {queue_full_warning}" "length n1 \<le> 1"
      by blast
    have "warnings' = warnings @ (n1 @ new) \<and> set (n1 @ new) \<subseteq> {queue_full_warning} \<and>
          length (n1 @ new) \<le> usages (e # es)"
      using n n1 Usage by (auto simp: usages_def)
    with n(1) show ?thesis by blast
  next
    case WriterStep
    obtain p1 f1 where h: "writer_step T (p, f) = (p1, f1)" by (cases "writer_step T (p, f)")
    from writer_step_queue[OF h] Cons.prems(2) have q1: "length (writeCh p1) \<le> capacity" by simp
    from Cons.prems(1) WriterStep h have "run T es ((p1, warnings), f1) = ((p', warnings'), f')" by simp
    from Cons.IH[OF this q1] WriterStep show ?thesis by (auto simp: usages_def)
  qed
qed

text \<open>
  Claim C6, as stated: when the queue is full the record is dropped and a dropped-record
  counter is incremented. The plugin has no such counter: on a full queue \<open>HandleUsage\<close>
  leaves the plugin exactly as it was and only logs a warning, so no quantity computed from
  the plugin can have grown by one.
\<close>

theorem full_queue_drop_counts_nothing:
  "length (writeCh full_plugin) = capacity \<and>
   HandleUsage sample_record (full_plugin, []) = (full_plugin, [queue_full_warning]) \<and>
   \<not> (\<exists>dropped :: SQLitePersistencePlugin \<Rightarrow> nat.
         dropped (fst (HandleUsage sample_record (full_plugin, []))) = dropped full_plugin + 1)"
proof -
  have a: "length (writeCh full_plugin) = capacity"
    by (simp add: full_plugin_def capacity_def)
  then have b: "HandleUsage sample_record (full_plugin, []) = (full_plugin, [queue_full_warning])"
    by (simp add: HandleUsage_def)
  from a b show ?thesis by simp
qed

text \<open>
  Claim C6, amended: \<open>HandleUsage\<close> never waits. With fewer than 1000 requests queued
  the record is appended to the queue; with 1000 queued the queue is left as it is and one
  warning is logged. Along any interleaving of calls and writer steps the queue never holds
  more than 1000 requests and the logged warnings only grow, by at most one per call; the
  count of dropped records is the count of these warnings, no counter is kept.
\<close>

theorem HandleUsage_enqueues_or_drops:
  "(length (writeCh p) < capacity \<longrightarrow>
      HandleUsage r (p, warnings) = (p\<lparr>writeCh := writeCh p @ [to_request r]\<rparr>, warnings)) \<and>
   (capacity \<le> length (writeCh p) \<longrightarrow>
      HandleUsage r (p, warnings) = (p, warnings @ [queue_full_warning])) \<and>
   (length (writeCh p) \<le> capacity \<and> run T es ((p, warnings), f) = ((p', warnings'), f') \<longrightarrow>
      length (writeCh p') \<le> capacity \<and>
      (\<exists>new. warnings' = warnings @ new \<and> set new \<subseteq> {queue_full_warning} \<and> length new \<le> usages es))"
  using HandleUsage_cases[of p r warnings] run_invariant[of T es p warnings f p' warnings' f']
  by blast

theorem HandleUsage_enqueues_or_drops_witness:
  "length (writeCh (NewSQLitePersistencePlugin ''usage.db'')) < capacity \<and>
   HandleUsage sample_record (NewSQLitePersistencePlugin ''usage.db'', [])
     = (\<lparr> store = ''usage.db'', writeCh = [to_request sample_record], cancelled = False \<rparr>, []) \<and>
   capacity \<le> length (writeCh full_plugin) \<and>
   HandleUsage sample_record (full_plugin, [''earlier'']) = (full_plugin, [''earlier'', queue_full_warning]) \<and>
   run decimal_time [Usage sample_record, WriterStep, Usage sample_record] ((full_plugin, []), empty_db)
     = ((full_plugin, [queue_full_warning]),
        \<lparr> has_table = True,
          rows = [to_row decimal_time ''test-api-key'' ''test-model'' (req_detail (to_request sample_record))],
          failing = [] \<rparr>) \<and>
   length (writeCh full_plugin) \<le> capacity \<and>
   (\<exists>new. [queue_full_warning] = [] @ new \<and> set new \<subseteq> {queue_full_warning} \<and>
      length new \<le> usages [Usage sample_record, WriterStep, Usage sample_record])"
proof -
  have a: "length (writeCh (NewSQLitePersistencePlugin ''usage.db'')) < capacity"
    by (simp add: NewSQLitePersistencePlugin_def capacity_def)
  have b: "capacity \<le> length (writeCh full_plugin)"
    by (simp add: full_plugin_def capacity_def)
  have b': "length (writeCh full_plugin) \<le> capacity"
    by (simp add: full_plugin_def capacity_def)
  have q: "replicate 1000 x = x # replicate 999 x" for x :: writeRequest
    by (simp add: replicate_Suc[symmetric] del: replicate_Suc)
  have c: "run decimal_time [Usage sample_record, WriterStep, Usage sample_record] ((full_plugin, []), empty_db)
     = ((full_plugin, [queue_full_warning]),
        \<lparr> has_table = True,
          rows = [to_row decimal_time ''test-api-key'' ''test-model'' (req_detail (to_request sample_record))],
          failing = [] \<rparr>)"
    by (simp add: HandleUsage_def full_plugin_def capacity_def writer_step_def q InsertRecord_def
        empty_db_def fails_def to_request_def sample_record_def replicate_append_same)
  note t1 = HandleUsage_enqueues_or_drops[of "NewSQLitePersistencePlugin ''usage.db''" sample_record "[]",
      THEN conjunct1, rule_format, OF a]
  note t2 = HandleUsage_enqueues_or_drops[of full_plugin sample_record "[''earlier'']",
      THEN conjunct2, THEN conjunct1, rule_format, OF b]
  note t3 = HandleUsage_enqueues_or_drops[of full_plugin _ "[]" decimal_time
      "[Usage sample_record, WriterStep, Usage sample_record]" empty_db,
      THEN conjunct2, THEN conjunct2, rule_format, OF conjI[OF b' c]]
  from a b b' c t1 t2 t3 show ?thesis
    by (simp add: NewSQLitePersistencePlugin_def)
qed

lemma function_response_known:
  "tcID2Name fid = Some name \<Longrightarrow>
     function_response incl tcID2Name toolResponses fid (mk_node role ps, length ps)
       = (mk_node role (ps @ [response_part incl name fid (response_result (toolResponses fid))]),
          Suc (length ps))"
  by (simp add: function_response_def functionResponse_def response_part_def response_result_def
      Let_def set_new_part2 set_last_part split: option.splits)

lemma function_response_unknown:
  "tcID2Name fid = None \<Longrightarrow> function_response incl tcID2Name toolResponses fid st = st"
  by (cases st) (simp add: function_response_def)

lemma function_responses_parts:
  "function_responses incl tcID2Name toolResponses fIDs (mk_node role ps, length ps)
     = (mk_node role (ps @ response_parts incl tcID2Name toolResponses fIDs),
        length ps + length (response_parts incl tcID2Name toolResponses fIDs))"
proof (induction fIDs arbitrary: ps)
  case Nil
  show ?case by (simp add: response_parts_def List.map_filter_simps)
next
  case (Cons fid fIDs)
  show ?case
  proof (cases "tcID2Name fid")
    case None
    with Cons.IH[of ps] show ?thesis
      by (simp add: function_response_unknown response_parts_def List.map_filter_simps)
  next
    case (Some name)
    from Cons.IH[of "ps @ [response_part incl name fid (response_result (toolResponses fid))]"] Some
    show ?thesis
      by (simp add: function_response_known response_parts_def List.map_filter_simps)
  qed
qed

lemma set_fresh2: "sjson_Set (JObj []) [Key a, Key b] v = JObj [(a, JObj [(b, v)])]"
  by (simp add: sjson_Set_def)

lemma set_in2:
  "sjson_Set (JObj [(a, JObj kvs)]) [Key a, Key b] v = JObj [(a, JObj (put_member kvs b v))]"
  by (simp add: sjson_Set_def)

lemma set_in3:
  "sjson_Set (JObj [(a, JObj kvs)]) [Key a, Key b, Key c] v
     = JObj [(a, JObj (put_member kvs b (JObj (put_member (members_of (map_of kvs b)) c v))))]"
  by (simp add: sjson_Set_def)

lemma text_item_mk:
  "text_item item (mk_node role ps, length ps)
     = (mk_node role (ps @ [text_part (gjson_String (gjson_Get item [''text'']))]), Suc (length ps))"
  by (simp add: text_item_def text_part_def set_new_part1)

lemma image_url_item_mk:
  "image_url_item item (mk_node role ps, length ps) = (mk_node role ps, length ps) \<or>
   (\<exists>mime data. image_url_item item (mk_node role ps, length ps)
        = (mk_node role (ps @ [inline_part mime data]), Suc (length ps)))"
  by (auto simp: image_url_item_def Let_def inlineData_mk)

lemma file_item_mk:
  "file_item U item (mk_node role ps, length ps) = (mk_node role ps, length ps) \<or>
   (\<exists>mime data. file_item U item (mk_node role ps, length ps)
        = (mk_node role (ps @ [inline_part mime data]), Suc (length ps)))"
  by (auto simp: file_item_def Let_def inlineData_mk split: option.splits)

lemma result_part_built:
  "sjson_Set (if incl \<and> toolID \<noteq> []
              then sjson_Set (sjson_Set (JObj []) [Key ''functionResponse'', Key ''name''] (JStr name))
                     [Key ''functionResponse'', Key ''id''] (JStr toolID)
              else sjson_Set (JObj []) [Key ''functionResponse'', Key ''name''] (JStr name))
     [Key ''functionResponse'', Key ''response'', Key ''result''] (JStr contentStr)
   = result_part incl name toolID contentStr"
  by (simp add: set_fresh2 set_in2 set_in3 result_part_def)

lemma tool_result_item_mk:
  "tool_result_item incl tcID2Name item (mk_node role ps, length ps) =
     (let toolID = gjson_String (gjson_Get item [''tool_use_id'']);
          c = gjson_Get item [''content''];
          contentStr = (if IsArray c then text_of_subs (Array c) else gjson_String c)
      in case tcID2Name toolID of
           None \<Rightarrow> (mk_node role ps, length ps)
         | Some name \<Rightarrow> (mk_node role (ps @ [result_part incl name toolID contentStr]), Suc (length ps)))"
  unfolding tool_result_item_def Let_def prod.case result_part_built set_new_part0
  by (simp split: option.splits)

lemma call_part_built:
  "set_args U (if incl \<and> fid \<noteq> []
               then sjson_Set (sjson_Set (JObj []) [Key ''functionCall'', Key ''name''] (JStr fname))
                      [Key ''functionCall'', Key ''id''] (JStr fid)
               else sjson_Set (JObj []) [Key ''functionCall'', Key ''name''] (JStr fname)) [] fargs
   = call_part U incl fname fid fargs"
  by (simp add: set_args_def set_fresh2 set_in2 set_in3 call_part_def args_members_def)

lemma tool_use_item_mk:
  "tool_use_item U incl rnd item (mk_node role ps, length ps, k) =
     (mk_node role (ps @ [call_part U incl (gjson_String (gjson_Get item [''name'']))
                            (fst (fresh_id incl rnd (gjson_String (gjson_Get item [''id''])) k))
                            (Raw (gjson_Get item [''input'']))]),
      Suc (length ps),
      snd (fresh_id incl rnd (gjson_String (gjson_Get item [''id''])) k))"
  unfolding tool_use_item_def Let_def prod.case call_part_built set_new_part0
  by (simp add: case_prod_beta call_part_built set_new_part0)

lemma tool_call_skip:
  "\<not> is_function_call tc \<Longrightarrow> tool_call U incl rnd tc st = st"
  by (cases st) (simp add: tool_call_def is_function_call_def Let_def)

lemma tool_call_mk:
  "is_function_call tc \<Longrightarrow>
   tool_call U incl rnd tc (mk_node role ps, length ps, fIDs, tcID2Name, k) =
     (mk_node role (ps @ [call_part U incl (call_name tc) (fst (fresh_id incl rnd (call_id tc) k)) (call_args tc)]),
      Suc (length ps),
      (if fst (fresh_id incl rnd (call_id tc) k) \<noteq> [] then fIDs @ [fst (fresh_id incl rnd (call_id tc) k)] else fIDs),
      (if incl \<and> fst (fresh_id incl rnd (call_id tc) k) \<noteq> [] \<and> call_name tc \<noteq> []
       then tcID2Name(fst (fresh_id incl rnd (call_id tc) k) \<mapsto> call_name tc) else tcID2Name),
      snd (fresh_id incl rnd (call_id tc) k))"
  by (simp add: tool_call_def is_function_call_def Let_def case_prod_beta call_name_def call_args_def
      call_id_def set_new_part2 set_last_part set_args_def call_part_def args_members_def)

lemma parts_of_mk: "parts_of (mk_node role ps) = ps"
  by (simp add: parts_of_def mk_node_def)

lemma id_policy_text: "id_policy incl (text_part s)"
  by (simp add: id_policy_def text_part_def)

lemma id_policy_inline: "id_policy incl (inline_part mime data)"
  by (simp add: id_policy_def inline_part_def)

lemma id_policy_call: "(incl \<Longrightarrow> fid \<noteq> []) \<Longrightarrow> id_policy incl (call_part U incl fname fid fargs)"
  by (cases incl) (simp_all add: id_policy_def call_part_def carries_id_def args_members_def)

lemma id_policy_response: "(incl \<Longrightarrow> fid \<noteq> []) \<Longrightarrow> id_policy incl (response_part incl name fid result)"
  by (cases incl; cases result) (simp_all add: id_policy_def response_part_def carries_id_def)

lemma id_policy_result: "(incl \<Longrightarrow> toolID \<noteq> []) \<Longrightarrow> id_policy incl (result_part incl name toolID c)"
  by (cases incl) (simp_all add: id_policy_def result_part_def carries_id_def)

lemma genToolCallID_format:
  "\<exists>s. genToolCallID rnd k = ''toolu_'' @ s \<and> length s = 24 \<and> set s \<subseteq> set letters"
proof -
  have "letters ! (n mod length letters) \<in> set letters" for n
    by (rule nth_mem) (simp add: letters_def)
  then have "set (map (\<lambda>i. letters ! (rnd (k + i) mod length letters)) [0..<24]) \<subseteq> set letters"
    by auto
  then show ?thesis
    unfolding genToolCallID_def by (intro exI conjI) (rule refl, simp, assumption)
qed

lemma fresh_id_nonempty: "incl \<Longrightarrow> fst (fresh_id incl rnd fid k) \<noteq> []"
  by (simp add: fresh_id_def genToolCallID_def)

lemma fresh_id_client: "fid \<noteq> [] \<Longrightarrow> fresh_id incl rnd fid k = (fid, k)"
  by (simp add: fresh_id_def)

lemma fresh_id_synthesized: "incl \<Longrightarrow> fresh_id incl rnd [] k = (genToolCallID rnd k, k + 24)"
  by (simp add: fresh_id_def)

lemma user_item_inv:
  assumes "tcID2Name [] = None"
  shows "\<exists>new. user_item U incl tcID2Name item (mk_node role ps, length ps)
                 = (mk_node role (ps @ new), length (ps @ new)) \<and> list_all (id_policy incl) new"
proof -
  let ?ty = "gjson_String (gjson_Get item [''type''])"
  consider (c_text) "?ty = ''text''" | (c_image) "?ty = ''image_url''" | (c_file) "?ty = ''file''"
    | (c_result) "?ty = ''tool_result''"
    | (c_other) "?ty \<noteq> ''text''" "?ty \<noteq> ''image_url''" "?ty \<noteq> ''file''" "?ty \<noteq> ''tool_result''"
    by blast
  then show ?thesis
  proof cases
    case c_text
    then have "user_item U incl tcID2Name item (mk_node role ps, length ps)
        = (mk_node role (ps @ [text_part (gjson_String (gjson_Get item [''text'']))]),
           length (ps @ [text_part (gjson_String (gjson_Get item [''text'']))]))"
      by (simp add: user_item_def text_item_mk)
    then show ?thesis using id_policy_text by (intro exI conjI) (assumption, simp)
  next
    case c_image
    then have e: "user_item U incl tcID2Name item (mk_node role ps, length ps)
        = image_url_item item (mk_node role ps, length ps)"
      by (simp add: user_item_def)
    from image_url_item_mk[of item role ps] show ?thesis
    proof
      assume "image_url_item item (mk_node role ps, length ps) = (mk_node role ps, length ps)"
      with e have "user_item U incl tcID2Name item (mk_node role ps, length ps)
          = (mk_node role (ps @ []), length (ps @ []))" by simp
      then show ?thesis by (intro exI conjI) (assumption, simp)
    next
      assume "\<exists>mime data. image_url_item item (mk_node role ps, length ps)
          = (mk_node role (ps @ [inline_part mime data]), Suc (length ps))"
      then obtain mime data where "image_url_item item (mk_node role ps, length ps)
          = (mk_node role (ps @ [inline_part mime data]), Suc (length ps))" by blast
      with e have "user_item U incl tcID2Name item (mk_node role ps, length ps)
          = (mk_node role (ps @ [inline_part mime data]), length (ps @ [inline_part mime data]))" by simp
      then show ?thesis using id_policy_inline by (intro exI conjI) (assumption, simp)
    qed
  next
    case c_file
    then have e: "user_item U incl tcID2Name item (mk_node role ps, length ps)
        = file_item U item (mk_node role ps, length ps)"
      by (simp add: user_item_def)
    from file_item_mk[of U item role ps] show ?thesis
    proof
      assume "file_item U item (mk_node role ps, length ps) = (mk_node role ps, length ps)"
      with e have "user_item U incl tcID2Name item (mk_node role ps, length ps)
          = (mk_node role (ps @ []), length (ps @ []))" by simp
      then show ?thesis by (intro exI conjI) (assumption, simp)
    next
      assume "\<exists>mime data. file_item U item (mk_node role ps, length ps)
          = (mk_node role (ps @ [inline_part mime data]), Suc (length ps))"
      then obtain mime data where "file_item U item (mk_node role ps, length ps)
          = (mk_node role (ps @ [inline_part mime data]), Suc (length ps))" by blast
      with e have "user_item U incl tcID2Name item (mk_node role ps, length ps)
          = (mk_node role (ps @ [inline_part mime data]), length (ps @ [inline_part mime data]))" by simp
      then show ?thesis using id_policy_inline by (intro exI conjI) (assumption, simp)
    qed
  next
    case c_result
    then have e: "user_item U incl tcID2Name item (mk_node role ps, length ps)
        = tool_result_item incl tcID2Name item (mk_node role ps, length ps)"
      by (simp add: user_item_def)
    let ?toolID = "gjson_String (gjson_Get item [''tool_use_id''])"
    show ?thesis
    proof (cases "tcID2Name ?toolID")
      case None
      with e have "user_item U incl tcID2Name item (mk_node role ps, length ps)
          = (mk_node role (ps @ []), length (ps @ []))"
        by (simp add: tool_result_item_mk)
      then show ?thesis by (intro exI conjI) (assumption, simp)
    next
      case (Some name)
      with assms have ne: "?toolID \<noteq> []" by auto
      from e Some obtain c where "user_item U incl tcID2Name item (mk_node role ps, length ps)
          = (mk_node role (ps @ [result_part incl name ?toolID c]), length (ps @ [result_part incl name ?toolID c]))"
        by (simp add: tool_result_item_mk Let_def)
      then show ?thesis using id_policy_result[of incl ?toolID name c] ne
        by (intro exI conjI) (assumption, simp)
    qed
  next
    case c_other
    then have "user_item U incl tcID2Name item (mk_node role ps, length ps)
          = (mk_node role (ps @ []), length (ps @ []))"
      by (simp add: user_item_def)
    then show ?thesis by (intro exI conjI) (assumption, simp)
  qed
qed

lemma user_items_inv:
  assumes "tcID2Name [] = None"
  shows "\<exists>new. user_items U incl tcID2Name items (mk_node role ps, length ps)
                 = (mk_node role (ps @ new), length (ps @ new)) \<and> list_all (id_policy incl) new"
proof (induction items arbitrary: ps)
  case Nil
  have "user_items U incl tcID2Name [] (mk_node role ps, length ps)
          = (mk_node role (ps @ []), length (ps @ []))" by simp
  then show ?case by (intro exI conjI) (assumption, simp)
next
  case (Cons item items)
  from user_item_inv[of tcID2Name U incl item role ps, OF assms] obtain n1 where
    s1: "user_item U incl tcID2Name item (mk_node role ps, length ps)
           = (mk_node role (ps @ n1), length (ps @ n1))" and p1: "list_all (id_policy incl) n1"
    by blast
  from Cons.IH[of "ps @ n1"] obtain n2 where
    s2: "user_items U incl tcID2Name items (mk_node role (ps @ n1), length (ps @ n1))
           = (mk_node role ((ps @ n1) @ n2), length ((ps @ n1) @ n2))" and p2: "list_all (id_policy incl) n2"
    by blast
  have "user_items U incl tcID2Name (item # items) (mk_node role ps, length ps)
          = (mk_node role (ps @ (n1 @ n2)), length (ps @ (n1 @ n2)))"
    using s1 s2 by simp
  moreover have "list_all (id_policy incl) (n1 @ n2)" using p1 p2 by simp
  ultimately show ?case by blast
qed

lemma assistant_item_inv:
  "\<exists>new k'. assistant_item U incl rnd item (mk_node role ps, length ps, k)
                 = (mk_node role (ps @ new), length (ps @ new), k') \<and> list_all (id_policy incl) new"
proof -
  let ?ty = "gjson_String (gjson_Get item [''type''])"
  consider (c_text) "?ty = ''text''" | (c_image) "?ty = ''image_url''" | (c_use) "?ty = ''tool_use''"
    | (c_other) "?ty \<noteq> ''text''" "?ty \<noteq> ''image_url''" "?ty \<noteq> ''tool_use''"
    by blast
  then show ?thesis
  proof cases
    case c_text
    then have "assistant_item U incl rnd item (mk_node role ps, length ps, k)
        = (mk_node role (ps @ [text_part (gjson_String (gjson_Get item [''text'']))]),
           length (ps @ [text_part (gjson_String (gjson_Get item [''text'']))]), k)"
      by (simp add: assistant_item_def text_item_mk)
    then show ?thesis using id_policy_text by (intro exI conjI) (assumption, simp)
  next
    case c_image
    then have e: "assistant_item U incl rnd item (mk_node role ps, length ps, k)
        = (case image_url_item item (mk_node role ps, length ps) of (node, p) \<Rightarrow> (node, p, k))"
      by (simp add: assistant_item_def)
    from image_url_item_mk[of item role ps] show ?thesis
    proof
      assume "image_url_item item (mk_node role ps, length ps) = (mk_node role ps, length ps)"
      with e have "assistant_item U incl rnd item (mk_node role ps, length ps, k)
          = (mk_node role (ps @ []), length (ps @ []), k)" by simp
      then show ?thesis by (intro exI conjI) (assumption, simp)
    next
      assume "\<exists>mime data. image_url_item item (mk_node role ps, length ps)
          = (mk_node role (ps @ [inline_part mime data]), Suc (length ps))"
      then obtain mime data where "image_url_item item (mk_node role ps, length ps)
          = (mk_node role (ps @ [inline_part mime data]), Suc (length ps))" by blast
      with e have "assistant_item U incl rnd item (mk_node role ps, length ps, k)
          = (mk_node role (ps @ [inline_part mime data]), length (ps @ [inline_part mime data]), k)" by simp
      then show ?thesis using id_policy_inline by (intro exI conjI) (assumption, simp)
    qed
  next
    case c_use
    let ?fid = "fst (fresh_id incl rnd (gjson_String (gjson_Get item [''id''])) k)"
    let ?part = "call_part U incl (gjson_String (gjson_Get item [''name''])) ?fid (Raw (gjson_Get item [''input'']))"
    from c_use have "assistant_item U incl rnd item (mk_node role ps, length ps, k)
        = (mk_node role (ps @ [?part]), length (ps @ [?part]),
           snd (fresh_id incl rnd (gjson_String (gjson_Get item [''id''])) k))"
      by (simp add: assistant_item_def tool_use_item_mk)
    moreover have "id_policy incl ?part"
      by (rule id_policy_call) (rule fresh_id_nonempty)
    ultimately show ?thesis by (intro exI conjI) (assumption, simp)
  next
    case c_other
    then have "assistant_item U incl rnd item (mk_node role ps, length ps, k)
          = (mk_node role (ps @ []), length (ps @ []), k)"
      by (simp add: assistant_item_def)
    then show ?thesis by (intro exI conjI) (assumption, simp)
  qed
qed

lemma assistant_items_inv:
  "\<exists>new k'. assistant_items U incl rnd items (mk_node role ps, length ps, k)
                 = (mk_node role (ps @ new), length (ps @ new), k') \<and> list_all (id_policy incl) new"
proof (induction items arbitrary: ps k)
  case Nil
  have "assistant_items U incl rnd [] (mk_node role ps, length ps, k)
          = (mk_node role (ps @ []), length (ps @ []), k)" by simp
  then show ?case by (intro exI conjI) (assumption, simp)
next
  case (Cons item items)
  from assistant_item_inv[of U incl rnd item role ps k] obtain n1 k1 where
    s1: "assistant_item U incl rnd item (mk_node role ps, length ps, k)
           = (mk_node role (ps @ n1), length (ps @ n1), k1)" and p1: "list_all (id_policy incl) n1"
    by blast
  from Cons.IH[of "ps @ n1" k1] obtain n2 k2 where
    s2: "assistant_items U incl rnd items (mk_node role (ps @ n1), length (ps @ n1), k1)
           = (mk_node role ((ps @ n1) @ n2), length ((ps @ n1) @ n2), k2)" and p2: "list_all (id_policy incl) n2"
    by blast
  have "assistant_items U incl rnd (item # items) (mk_node role ps, length ps, k)
          = (mk_node role (ps @ (n1 @ n2)), length (ps @ (n1 @ n2)), k2)"
    using s1 s2 by simp
  moreover have "list_all (id_policy incl) (n1 @ n2)" using p1 p2 by simp
  ultimately show ?case by blast
qed

lemma set_append_part:
  "sjson_Set (mk_node role ps) [Key ''parts'', Append, Key a] v = mk_node role (ps @ [JObj [(a, v)]])"
  by (simp add: sjson_Set_def mk_node_def)

lemma assistant_content_inv:
  "\<exists>new k'. assistant_content U incl rnd content k
                 = (mk_node ''model'' new, length new, k') \<and> list_all (id_policy incl) new"
proof -
  consider (str) "is_String content" | (arr) "\<not> is_String content" "IsArray content"
    | (other) "\<not> is_String content" "\<not> IsArray content"
    by blast
  then show ?thesis
  proof cases
    case str
    then have "assistant_content U incl rnd content k
        = (mk_node ''model'' [text_part (gjson_String content)], length [text_part (gjson_String content)], k)"
      by (simp add: assistant_content_def new_node_mk set_append_part text_part_def)
    then show ?thesis using id_policy_text by (intro exI conjI) (assumption, simp)
  next
    case arr
    from assistant_items_inv[of U incl rnd "Array content" "''model''" "[]" k] obtain new k' where
      "assistant_items U incl rnd (Array content) (mk_node ''model'' [], 0, k)
         = (mk_node ''model'' new, length new, k')" and "list_all (id_policy incl) new"
      by auto
    with arr have "assistant_content U incl rnd content k = (mk_node ''model'' new, length new, k')"
      and "list_all (id_policy incl) new"
      by (simp_all add: assistant_content_def new_node_mk)
    then show ?thesis by blast
  next
    case other
    then have "assistant_content U incl rnd content k = (mk_node ''model'' [], length ([] :: json list), k)"
      by (simp add: assistant_content_def new_node_mk)
    then show ?thesis by (intro exI conjI) (assumption, simp)
  qed
qed

lemma tool_call_inv:
  assumes "tcID2Name [] = None" and "list_all (\<lambda>fid. fid \<noteq> []) fIDs"
  shows "\<exists>new fIDs' tcID2Name' k'.
           tool_call U incl rnd tc (mk_node role ps, length ps, fIDs, tcID2Name, k)
             = (mk_node role (ps @ new), length (ps @ new), fIDs', tcID2Name', k') \<and>
           list_all (id_policy incl) new \<and> tcID2Name' [] = None \<and> list_all (\<lambda>fid. fid \<noteq> []) fIDs'"
proof (cases "is_function_call tc")
  case False
  then have "tool_call U incl rnd tc (mk_node role ps, length ps, fIDs, tcID2Name, k)
      = (mk_node role (ps @ []), length (ps @ []), fIDs, tcID2Name, k)"
    by (simp add: tool_call_skip)
  with assms show ?thesis by (intro exI conjI) (assumption, simp_all)
next
  case True
  let ?fid = "fst (fresh_id incl rnd (call_id tc) k)"
  let ?part = "call_part U incl (call_name tc) ?fid (call_args tc)"
  let ?fIDs = "if ?fid \<noteq> [] then fIDs @ [?fid] else fIDs"
  let ?names = "if incl \<and> ?fid \<noteq> [] \<and> call_name tc \<noteq> [] then tcID2Name(?fid \<mapsto> call_name tc) else tcID2Name"
  have "tool_call U incl rnd tc (mk_node role ps, length ps, fIDs, tcID2Name, k)
      = (mk_node role (ps @ [?part]), length (ps @ [?part]), ?fIDs, ?names, snd (fresh_id incl rnd (call_id tc) k))"
    by (simp add: tool_call_mk[OF True])
  moreover have "list_all (id_policy incl) [?part]"
    using id_policy_call[of incl ?fid U "call_name tc" "call_args tc"] fresh_id_nonempty[of incl rnd "call_id tc" k]
    by simp
  moreover have "?names [] = None" using assms(1) by simp
  moreover have "list_all (\<lambda>fid. fid \<noteq> []) ?fIDs" using assms(2) by simp
  ultimately show ?thesis by blast
qed

lemma tool_calls_inv:
  assumes "tcID2Name [] = None" and "list_all (\<lambda>fid. fid \<noteq> []) fIDs"
  shows "\<exists>new fIDs' tcID2Name' k'.
           tool_calls U incl rnd tcs (mk_node role ps, length ps, fIDs, tcID2Name, k)
             = (mk_node role (ps @ new), length (ps @ new), fIDs', tcID2Name', k') \<and>
           list_all (id_policy incl) new \<and> tcID2Name' [] = None \<and> list_all (\<lambda>fid. fid \<noteq> []) fIDs'"
  using assms
proof (induction tcs arbitrary: ps fIDs tcID2Name k)
  case Nil
  have "tool_calls U incl rnd [] (mk_node role ps, length ps, fIDs, tcID2Name, k)
      = (mk_node role (ps @ []), length (ps @ []), fIDs, tcID2Name, k)" by simp
  with Nil.prems show ?case by (intro exI conjI) (assumption, simp_all)
next
  case (Cons tc tcs)
  from tool_call_inv[of tcID2Name fIDs U incl rnd tc role ps k, OF Cons.prems] obtain n1 f1 t1 k1 where
    s1: "tool_call U incl rnd tc (mk_node role ps, length ps, fIDs, tcID2Name, k)
           = (mk_node role (ps @ n1), length (ps @ n1), f1, t1, k1)"
    and p1: "list_all (id_policy incl) n1" and a1: "t1 [] = None" and b1: "list_all (\<lambda>fid. fid \<noteq> []) f1"
    by blast
  from Cons.IH[of t1 f1 "ps @ n1" k1, OF a1 b1] obtain n2 f2 t2 k2 where
    s2: "tool_calls U incl rnd tcs (mk_node role (ps @ n1), length (ps @ n1), f1, t1, k1)
           = (mk_node role ((ps @ n1) @ n2), length ((ps @ n1) @ n2), f2, t2, k2)"
    and p2: "list_all (id_policy incl) n2" and a2: "t2 [] = None" and b2: "list_all (\<lambda>fid. fid \<noteq> []) f2"
    by blast
  have "tool_calls U incl rnd (tc # tcs) (mk_node role ps, length ps, fIDs, tcID2Name, k)
          = (mk_node role (ps @ (n1 @ n2)), length (ps @ (n1 @ n2)), f2, t2, k2)"
    using s1 s2 by simp
  moreover have "list_all (id_policy incl) (n1 @ n2)" using p1 p2 by simp
  ultimately show ?case using a2 b2 by blast
qed

lemma gjson_Get2:
  "gjson_Get out [a, b] = map_of (members_of (map_of (members_of (Some out)) a)) b"
proof (cases out)
  case (JObj kvs)
  show ?thesis
  proof (cases "map_of kvs a")
    case None
    with JObj show ?thesis by simp
  next
    case (Some v)
    with JObj show ?thesis by (cases v) (simp_all split: option.splits)
  qed
qed simp_all

lemma contents_of_append: "contents_of (contents_append out node) = contents_of out @ [node]"
  by (simp add: contents_of_def contents_append_def sjson_Set_def gjson_Get2 map_of_put_member)

lemma contents_of_set_other:
  "k \<noteq> ''contents'' \<Longrightarrow> contents_of (sjson_Set out (Key ''request'' # Key k # path) v) = contents_of out"
  by (simp add: contents_of_def sjson_Set_def gjson_Get2 map_of_put_member map_of_put_member_other)

lemma contents_of_system_parts: "contents_of (system_parts cs j out) = contents_of out"
  by (induction cs arbitrary: j out) (simp_all add: systemInstruction_def contents_of_set_other)

lemma contents_of_system_message: "contents_of (system_message content out) = contents_of out"
  by (simp add: system_message_def systemInstruction_def contents_of_set_other contents_of_system_parts)

lemma response_parts_policy:
  assumes "list_all (\<lambda>fid. fid \<noteq> []) fIDs"
  shows "list_all (id_policy incl) (response_parts incl tcID2Name toolResponses fIDs)"
  using assms
proof (induction fIDs)
  case Nil
  show ?case by (simp add: response_parts_def List.map_filter_simps)
next
  case (Cons fid fIDs)
  then have "list_all (id_policy incl) (response_parts incl tcID2Name toolResponses fIDs)" and "fid \<noteq> []"
    by simp_all
  then show ?case
    using id_policy_response[of incl fid]
    by (cases "tcID2Name fid") (simp_all add: response_parts_def List.map_filter_simps)
qed

lemma user_message_inv:
  assumes "tcID2Name [] = None"
  shows "\<exists>ps. contents_of (user_message U incl tcID2Name content out) = contents_of out @ [mk_node ''user'' ps] \<and>
              list_all (id_policy incl) ps"
proof -
  consider (str) "is_String content" | (arr) "\<not> is_String content" "IsArray content"
    | (other) "\<not> is_String content" "\<not> IsArray content"
    by blast
  then show ?thesis
  proof cases
    case str
    then have "user_message U incl tcID2Name content out
        = contents_append out (mk_node ''user'' [text_part (gjson_String content)])"
      using set_new_part1[of "''user''" "[]" "''text''"]
      by (simp add: user_message_def new_node_mk text_part_def)
    then have "contents_of (user_message U incl tcID2Name content out)
        = contents_of out @ [mk_node ''user'' [text_part (gjson_String content)]]"
      by (simp add: contents_of_append)
    then show ?thesis using id_policy_text by (intro exI conjI) (assumption, simp)
  next
    case arr
    from user_items_inv[of tcID2Name U incl "Array content" "''user''" "[]", OF assms] obtain new where
      n: "user_items U incl tcID2Name (Array content) (mk_node ''user'' [], 0) = (mk_node ''user'' new, length new)"
      and p: "list_all (id_policy incl) new"
      by auto
    from arr n have "user_message U incl tcID2Name content out = contents_append out (mk_node ''user'' new)"
      by (simp add: user_message_def new_node_mk)
    then have "contents_of (user_message U incl tcID2Name content out) = contents_of out @ [mk_node ''user'' new]"
      by (simp add: contents_of_append)
    with p show ?thesis by blast
  next
    case other
    then have "user_message U incl tcID2Name content out = contents_append out (mk_node ''user'' [])"
      by (simp add: user_message_def new_node_mk)
    then have "contents_of (user_message U incl tcID2Name content out) = contents_of out @ [mk_node ''user'' []]"
      by (simp add: contents_of_append)
    then show ?thesis by (intro exI conjI) (assumption, simp)
  qed
qed

lemma assistant_message_inv:
  assumes "tcID2Name [] = None"
  shows "\<exists>out' tcID2Name' k' new.
           assistant_message U incl rnd toolResponses m (out, tcID2Name, k) = (out', tcID2Name', k') \<and>
           contents_of out' = contents_of out @ new \<and> list_all (node_policy incl) new \<and>
           tcID2Name' [] = None"
proof -
  from assistant_content_inv[of U incl rnd "gjson_Get m [''content'']" k] obtain ps k1 where
    c: "assistant_content U incl rnd (gjson_Get m [''content'']) k = (mk_node ''model'' ps, length ps, k1)"
    and pc: "list_all (id_policy incl) ps"
    by blast
  show ?thesis
  proof (cases "IsArray (gjson_Get m [''tool_calls''])")
    case False
    with c have "assistant_message U incl rnd toolResponses m (out, tcID2Name, k)
        = (contents_append out (mk_node ''model'' ps), tcID2Name, k1)"
      by (simp add: assistant_message_def)
    moreover have "contents_of (contents_append out (mk_node ''model'' ps)) = contents_of out @ [mk_node ''model'' ps]"
      by (rule contents_of_append)
    moreover have "list_all (node_policy incl) [mk_node ''model'' ps]"
      using pc by (simp add: node_policy_def parts_of_mk)
    ultimately show ?thesis using assms by blast
  next
    case True
    from tool_calls_inv[of tcID2Name "[]" U incl rnd "Array (gjson_Get m [''tool_calls''])" "''model''" ps k1, OF assms]
    obtain n2 fIDs t2 k2 where
      t: "tool_calls U incl rnd (Array (gjson_Get m [''tool_calls''])) (mk_node ''model'' ps, length ps, [], tcID2Name, k1)
            = (mk_node ''model'' (ps @ n2), length (ps @ n2), fIDs, t2, k2)"
      and p2: "list_all (id_policy incl) n2" and a2: "t2 [] = None" and b2: "list_all (\<lambda>fid. fid \<noteq> []) fIDs"
      by auto
    let ?parts = "response_parts incl t2 toolResponses fIDs"
    let ?out1 = "contents_append out (mk_node ''model'' (ps @ n2))"
    have fr: "function_responses incl t2 toolResponses fIDs (new_node ''function'', 0)
        = (mk_node ''function'' ?parts, length ?parts)"
      using function_responses_parts[of incl t2 toolResponses fIDs "''function''" "[]"]
      by (simp add: new_node_mk)
    have pr: "list_all (id_policy incl) ?parts" using b2 by (rule response_parts_policy)
    have pm: "node_policy incl (mk_node ''model'' (ps @ n2))"
      using pc p2 by (simp add: node_policy_def parts_of_mk)
    have e: "assistant_message U incl rnd toolResponses m (out, tcID2Name, k)
        = ((if 0 < length ?parts then contents_append ?out1 (mk_node ''function'' ?parts) else ?out1), t2, k2)"
      using True c t fr by (simp add: assistant_message_def Let_def)
    show ?thesis
    proof (cases "?parts = []")
      case True
      with e have "assistant_message U incl rnd toolResponses m (out, tcID2Name, k) = (?out1, t2, k2)" by simp
      moreover have "contents_of ?out1 = contents_of out @ [mk_node ''model'' (ps @ n2)]"
        by (rule contents_of_append)
      moreover have "list_all (node_policy incl) [mk_node ''model'' (ps @ n2)]" using pm by simp
      ultimately show ?thesis using a2 by blast
    next
      case False
      with e have "assistant_message U incl rnd toolResponses m (out, tcID2Name, k)
          = (contents_append ?out1 (mk_node ''function'' ?parts), t2, k2)" by simp
      moreover have "contents_of (contents_append ?out1 (mk_node ''function'' ?parts))
          = contents_of out @ [mk_node ''model'' (ps @ n2), mk_node ''function'' ?parts]"
        by (simp add: contents_of_append)
      moreover have "list_all (node_policy incl) [mk_node ''model'' (ps @ n2), mk_node ''function'' ?parts]"
        using pm pr by (simp add: node_policy_def parts_of_mk)
      ultimately show ?thesis using a2 by blast
    qed
  qed
qed

lemma tool_calls_names_no_empty: "tcID2Name [] = None \<Longrightarrow> tool_calls_names tcs tcID2Name [] = None"
  by (induction tcs arbitrary: tcID2Name) (simp_all add: Let_def)

lemma tool_use_names_no_empty: "tcID2Name [] = None \<Longrightarrow> tool_use_names items tcID2Name [] = None"
  by (induction items arbitrary: tcID2Name) (simp_all add: Let_def)

lemma first_pass_no_empty: "tcID2Name [] = None \<Longrightarrow> first_pass arr tcID2Name [] = None"
  by (induction arr arbitrary: tcID2Name)
    (simp_all add: Let_def tool_calls_names_no_empty tool_use_names_no_empty)

lemma message_inv:
  assumes "tcID2Name [] = None"
  shows "\<exists>out1 t1 k1 n1.
      message U incl rnd toolResponses n m (out, tcID2Name, k) = (out1, t1, k1) \<and>
      contents_of out1 = contents_of out @ n1 \<and> list_all (node_policy incl) n1 \<and> t1 [] = None"
proof -
  let ?role = "gjson_String (gjson_Get m [''role''])"
  let ?content = "gjson_Get m [''content'']"
  have keep: "\<exists>out1 t1 k1 n1. (out, tcID2Name, k) = (out1, t1, k1) \<and>
      contents_of out1 = contents_of out @ n1 \<and> list_all (node_policy incl) n1 \<and> t1 [] = None"
    using assms by (intro exI[of _ out] exI[of _ tcID2Name] exI[of _ k] exI[of _ "[]"]) simp
  consider (sys) "?role = ''system'' \<and> n > 1"
    | (usr) "\<not> (?role = ''system'' \<and> n > 1)" "?role = ''user'' \<or> (?role = ''system'' \<and> n = 1)"
    | (tool) "\<not> (?role = ''system'' \<and> n > 1)" "\<not> (?role = ''user'' \<or> (?role = ''system'' \<and> n = 1))"
        "?role = ''tool''"
    | (asst) "\<not> (?role = ''system'' \<and> n > 1)" "\<not> (?role = ''user'' \<or> (?role = ''system'' \<and> n = 1))"
        "?role \<noteq> ''tool''" "?role = ''assistant''"
    | (none) "\<not> (?role = ''system'' \<and> n > 1)" "\<not> (?role = ''user'' \<or> (?role = ''system'' \<and> n = 1))"
        "?role \<noteq> ''tool''" "?role \<noteq> ''assistant''"
    by blast
  then show ?thesis
  proof cases
    case sys
    have "message U incl rnd toolResponses n m (out, tcID2Name, k)
        = (system_message ?content out, tcID2Name, k)"
      unfolding message_def Let_def prod.case using sys by simp
    moreover have "contents_of (system_message ?content out) = contents_of out @ []"
      by (simp add: contents_of_system_message)
    ultimately show ?thesis using assms by (intro exI conjI) (assumption, assumption, simp_all)
  next
    case usr
    have e: "message U incl rnd toolResponses n m (out, tcID2Name, k)
        = (user_message U incl tcID2Name ?content out, tcID2Name, k)"
      unfolding message_def Let_def prod.case using usr by auto
    from user_message_inv[of tcID2Name U incl ?content out, OF assms] obtain ps where
      "contents_of (user_message U incl tcID2Name ?content out) = contents_of out @ [mk_node ''user'' ps]"
      and "list_all (id_policy incl) ps" by blast
    then have "contents_of (user_message U incl tcID2Name ?content out) = contents_of out @ [mk_node ''user'' ps]"
      and "list_all (node_policy incl) [mk_node ''user'' ps]"
      by (simp_all add: node_policy_def parts_of_mk)
    with e assms show ?thesis by blast
  next
    case tool
    have "message U incl rnd toolResponses n m (out, tcID2Name, k) = (out, tcID2Name, k)"
      unfolding message_def Let_def prod.case using tool by auto
    with keep show ?thesis by simp
  next
    case asst
    have e: "message U incl rnd toolResponses n m (out, tcID2Name, k)
        = assistant_message U incl rnd toolResponses m (out, tcID2Name, k)"
      unfolding message_def Let_def prod.case using asst by auto
    from assistant_message_inv[of tcID2Name U incl rnd toolResponses m out k, OF assms]
    show ?thesis unfolding e .
  next
    case none
    have "message U incl rnd toolResponses n m (out, tcID2Name, k) = (out, tcID2Name, k)"
      unfolding message_def Let_def prod.case using none by auto
    with keep show ?thesis by simp
  qed
qed

lemma messages_loop_inv:
  assumes "tcID2Name [] = None"
  shows "\<exists>out' tcID2Name' k' new.
           messages_loop U incl rnd toolResponses n arr (out, tcID2Name, k) = (out', tcID2Name', k') \<and>
           contents_of out' = contents_of out @ new \<and> list_all (node_policy incl) new"
  using assms
proof (induction arr arbitrary: out tcID2Name k)
  case Nil
  have "messages_loop U incl rnd toolResponses n [] (out, tcID2Name, k) = (out, tcID2Name, k)" by simp
  moreover have "contents_of out = contents_of out @ []" by simp
  ultimately show ?case by (intro exI conjI) (assumption, assumption, simp)
next
  case (Cons m arr)
  from message_inv[of tcID2Name U incl rnd toolResponses n m out k, OF Cons.prems]
  obtain out1 t1 k1 n1 where
    s1: "message U incl rnd toolResponses n m (out, tcID2Name, k) = (out1, t1, k1)"
    and c1: "contents_of out1 = contents_of out @ n1" and p1: "list_all (node_policy incl) n1"
    and a1: "t1 [] = None"
    by blast
  from Cons.IH[of t1 out1 k1, OF a1] obtain out2 t2 k2 n2 where
    s2: "messages_loop U incl rnd toolResponses n arr (out1, t1, k1) = (out2, t2, k2)"
    and c2: "contents_of out2 = contents_of out1 @ n2" and p2: "list_all (node_policy incl) n2"
    by blast
  have "messages_loop U incl rnd toolResponses n (m # arr) (out, tcID2Name, k) = (out2, t2, k2)"
    using s1 s2 by simp
  moreover have "contents_of out2 = contents_of out @ (n1 @ n2)" using c1 c2 by simp
  moreover have "list_all (node_policy incl) (n1 @ n2)" using p1 p2 by simp
  ultimately show ?case by blast
qed

lemma messages_step_policy:
  "\<exists>new. contents_of (messages_step U modelName rnd rawJSON out) = contents_of out @ new \<and>
         list_all (node_policy (includeToolIDs modelName)) new"
proof (cases "IsArray (gjson_Get rawJSON [''messages''])")
  case False
  then have "contents_of (messages_step U modelName rnd rawJSON out) = contents_of out @ []"
    by (simp add: messages_step_def)
  then show ?thesis by (intro exI conjI) (assumption, simp)
next
  case True
  let ?arr = "Array (gjson_Get rawJSON [''messages''])"
  have "first_pass ?arr Map.empty [] = None" by (rule first_pass_no_empty) simp
  from messages_loop_inv[of "first_pass ?arr Map.empty" U "includeToolIDs modelName" rnd
      "second_pass ?arr Map.empty" "length ?arr" ?arr out 0, OF this]
  obtain out' t' k' new where
    "messages_loop U (includeToolIDs modelName) rnd (second_pass ?arr Map.empty) (length ?arr) ?arr
       (out, first_pass ?arr Map.empty, 0) = (out', t', k')"
    and "contents_of out' = contents_of out @ new"
    and "list_all (node_policy (includeToolIDs modelName)) new"
    by blast
  with True show ?thesis by (auto simp: messages_step_def Let_def)
qed

lemma gen0: "genToolCallID (\<lambda>i. 0) k = ''toolu_'' @ replicate 24 (CHR ''a'')"
  by (simp add: genToolCallID_def letters_def map_replicate_const)

theorem tool_call_id_policy:
  "(\<exists>new. contents_of (messages_step U modelName rnd rawJSON out) = contents_of out @ new \<and>
          list_all (node_policy (includeToolIDs modelName)) new) \<and>
   (is_function_call tc \<longrightarrow>
      tool_call U incl rnd tc (mk_node role ps, length ps, fIDs, tcID2Name, k) =
        (let fid = (if incl \<and> call_id tc = [] then genToolCallID rnd k else call_id tc)
         in (mk_node role (ps @ [call_part U incl (call_name tc) fid (call_args tc)]),
             Suc (length ps),
             (if fid \<noteq> [] then fIDs @ [fid] else fIDs),
             (if incl \<and> fid \<noteq> [] \<and> call_name tc \<noteq> [] then tcID2Name(fid \<mapsto> call_name tc) else tcID2Name),
             (if incl \<and> call_id tc = [] then k + 24 else k)))) \<and>
   tool_use_item U incl rnd item (mk_node role ps, length ps, k) =
     (let fid = (if incl \<and> gjson_String (gjson_Get item [''id'']) = [] then genToolCallID rnd k
                 else gjson_String (gjson_Get item [''id'']))
      in (mk_node role (ps @ [call_part U incl (gjson_String (gjson_Get item [''name''])) fid
                                (Raw (gjson_Get item [''input'']))]),
          Suc (length ps),
          (if incl \<and> gjson_String (gjson_Get item [''id'']) = [] then k + 24 else k))) \<and>
   (\<exists>s. genToolCallID rnd k = ''toolu_'' @ s \<and> length s = 24 \<and> set s \<subseteq> set letters) \<and>
   gjson_Get (call_part U incl fname fid fargs) [''functionCall'', ''id'']
     = (if incl \<and> fid \<noteq> [] then Some (JStr fid) else None) \<and>
   function_responses incl tcID2Name toolResponses fIDs (new_node ''function'', 0)
     = (mk_node ''function'' (response_parts incl tcID2Name toolResponses fIDs),
        length (response_parts incl tcID2Name toolResponses fIDs)) \<and>
   gjson_Get (response_part incl name fid result) [''functionResponse'', ''id'']
     = (if incl then Some (JStr fid) else None)"
proof (intro conjI impI)
  show "\<exists>new. contents_of (messages_step U modelName rnd rawJSON out) = contents_of out @ new \<and>
          list_all (node_policy (includeToolIDs modelName)) new"
    by (rule messages_step_policy)
next
  assume "is_function_call tc"
  then show "tool_call U incl rnd tc (mk_node role ps, length ps, fIDs, tcID2Name, k) =
        (let fid = (if incl \<and> call_id tc = [] then genToolCallID rnd k else call_id tc)
         in (mk_node role (ps @ [call_part U incl (call_name tc) fid (call_args tc)]),
             Suc (length ps),
             (if fid \<noteq> [] then fIDs @ [fid] else fIDs),
             (if incl \<and> fid \<noteq> [] \<and> call_name tc \<noteq> [] then tcID2Name(fid \<mapsto> call_name tc) else tcID2Name),
             (if incl \<and> call_id tc = [] then k + 24 else k)))"
    by (simp add: tool_call_mk fresh_id_def Let_def)
next
  show "tool_use_item U incl rnd item (mk_node role ps, length ps, k) =
     (let fid = (if incl \<and> gjson_String (gjson_Get item [''id'']) = [] then genToolCallID rnd k
                 else gjson_String (gjson_Get item [''id'']))
      in (mk_node role (ps @ [call_part U incl (gjson_String (gjson_Get item [''name''])) fid
                                (Raw (gjson_Get item [''input'']))]),
          Suc (length ps),
          (if incl \<and> gjson_String (gjson_Get item [''id'']) = [] then k + 24 else k)))"
    by (simp add: tool_use_item_mk fresh_id_def Let_def)
next
  show "\<exists>s. genToolCallID rnd k = ''toolu_'' @ s \<and> length s = 24 \<and> set s \<subseteq> set letters"
    by (rule genToolCallID_format)
next
  show "gjson_Get (call_part U incl fname fid fargs) [''functionCall'', ''id'']
     = (if incl \<and> fid \<noteq> [] then Some (JStr fid) else None)"
    by (simp add: call_part_def args_members_def)
next
  show "function_responses incl tcID2Name toolResponses fIDs (new_node ''function'', 0)
     = (mk_node ''function'' (response_parts incl tcID2Name toolResponses fIDs),
        length (response_parts incl tcID2Name toolResponses fIDs))"
    using function_responses_parts[of incl tcID2Name toolResponses fIDs "''function''" "[]"]
    by (simp add: new_node_mk)
next
  show "gjson_Get (response_part incl name fid result) [''functionResponse'', ''id'']
     = (if incl then Some (JStr fid) else None)"
    by (cases result) (simp_all add: response_part_def)
qed

lemma claude_eval:
  "contents_of (messages_step helpers ''claude-sonnet'' (\<lambda>i. 0) claude_round_trip envelope) =
     [mk_node ''model'' [call_part helpers True ''add'' ''call_1'' ''{}''],
      mk_node ''function'' [response_part True ''add'' ''call_1'' (Some (JRaw (render (JObj [(''r'', JNum 2)]))))]]"
  by code_simp

lemma gemini_eval:
  "contents_of (messages_step helpers ''gemini-2.5-pro'' (\<lambda>i. 0) tool_round_trip envelope) =
     [mk_node ''model'' [call_part helpers False ''add'' ''call_1'' ''{}'',
                        call_part helpers False ''sub'' [] ''{}''],
      mk_node ''function'' [response_part False ''add'' ''call_1'' (Some (JRaw (render (JObj [(''r'', JNum 2)]))))]]"
  by code_simp

theorem tool_call_id_policy_witness:
  "includeToolIDs ''claude-sonnet'' \<and> \<not> includeToolIDs ''gemini-2.5-pro'' \<and>
   contents_of (messages_step helpers ''claude-sonnet'' (\<lambda>i. 0) claude_round_trip envelope) =
     [mk_node ''model'' [call_part helpers True ''add'' ''call_1'' ''{}''],
      mk_node ''function'' [response_part True ''add'' ''call_1'' (Some (JRaw (render (JObj [(''r'', JNum 2)]))))]] \<and>
   list_all (node_policy True)
     [mk_node ''model'' [call_part helpers True ''add'' ''call_1'' ''{}''],
      mk_node ''function'' [response_part True ''add'' ''call_1'' (Some (JRaw (render (JObj [(''r'', JNum 2)]))))]] \<and>
   contents_of (messages_step helpers ''gemini-2.5-pro'' (\<lambda>i. 0) tool_round_trip envelope) =
     [mk_node ''model'' [call_part helpers False ''add'' ''call_1'' ''{}'',
                        call_part helpers False ''sub'' [] ''{}''],
      mk_node ''function'' [response_part False ''add'' ''call_1'' (Some (JRaw (render (JObj [(''r'', JNum 2)]))))]] \<and>
   list_all (node_policy False)
     [mk_node ''model'' [call_part helpers False ''add'' ''call_1'' ''{}'',
                        call_part helpers False ''sub'' [] ''{}''],
      mk_node ''function'' [response_part False ''add'' ''call_1'' (Some (JRaw (render (JObj [(''r'', JNum 2)]))))]] \<and>
   is_function_call call_without_id \<and>
   tool_call helpers True (\<lambda>i. 0) call_without_id (mk_node ''model'' [], 0, [], Map.empty, 0) =
     (mk_node ''model'' [call_part helpers True ''sub'' (''toolu_'' @ replicate 24 (CHR ''a'')) ''{}''],
      1, [''toolu_'' @ replicate 24 (CHR ''a'')],
      [''toolu_'' @ replicate 24 (CHR ''a'') \<mapsto> ''sub''], 24)"
proof -
  have c: "includeToolIDs ''claude-sonnet''" by code_simp
  have g: "\<not> includeToolIDs ''gemini-2.5-pro''" by code_simp
  have e0: "contents_of envelope = []" by (simp add: contents_of_def envelope_def)
  have f: "is_function_call call_without_id" by (simp add: is_function_call_def call_without_id_def)
  have n: "call_name call_without_id = ''sub''" "call_args call_without_id = ''{}''" "call_id call_without_id = []"
    by (simp_all add: call_name_def call_args_def call_id_def call_without_id_def)
  note t1 = tool_call_id_policy[of helpers "''claude-sonnet''" "\<lambda>i. 0" claude_round_trip envelope, THEN conjunct1]
  note t2 = tool_call_id_policy[of helpers "''gemini-2.5-pro''" "\<lambda>i. 0" tool_round_trip envelope, THEN conjunct1]
  note t3 = tool_call_id_policy[of helpers _ "\<lambda>i. 0" _ _ call_without_id True "''model''" "[]" "[]" Map.empty 0,
      THEN conjunct2, THEN conjunct1, rule_format, OF f]
  from t1 c e0 claude_eval have p1: "list_all (node_policy True)
     [mk_node ''model'' [call_part helpers True ''add'' ''call_1'' ''{}''],
      mk_node ''function'' [response_part True ''add'' ''call_1'' (Some (JRaw (render (JObj [(''r'', JNum 2)]))))]]"
    by auto
  from t2 g e0 gemini_eval have p2: "list_all (node_policy False)
     [mk_node ''model'' [call_part helpers False ''add'' ''call_1'' ''{}'',
                        call_part helpers False ''sub'' [] ''{}''],
      mk_node ''function'' [response_part False ''add'' ''call_1'' (Some (JRaw (render (JObj [(''r'', JNum 2)]))))]]"
    by auto
  from t3 n have p3: "tool_call helpers True (\<lambda>i. 0) call_without_id (mk_node ''model'' [], 0, [], Map.empty, 0) =
     (mk_node ''model'' [call_part helpers True ''sub'' (''toolu_'' @ replicate 24 (CHR ''a'')) ''{}''],
      1, [''toolu_'' @ replicate 24 (CHR ''a'')],
      [''toolu_'' @ replicate 24 (CHR ''a'') \<mapsto> ''sub''], 24)"
    by (simp add: gen0 Let_def)
  from c g claude_eval gemini_eval p1 p2 f p3 show ?thesis by blast
qed

lemma tool_call_ids:
  "function_ids (tool_call U incl rnd tc st) =
     (if is_function_call tc \<and> fst (fresh_id incl rnd (call_id tc) (draws st)) \<noteq> []
      then function_ids st @ [fst (fresh_id incl rnd (call_id tc) (draws st))] else function_ids st)"
  "draws (tool_call U incl rnd tc st) =
     (if is_function_call tc then snd (fresh_id incl rnd (call_id tc) (draws st)) else draws st)"
  by (cases st; simp add: tool_call_def function_ids_def draws_def is_function_call_def call_id_def
      Let_def case_prod_beta)+

lemma tool_calls_ids:
  "function_ids (tool_calls U incl rnd tcs st)
     = function_ids st @ filter (\<lambda>fid. fid \<noteq> []) (assigned_ids incl rnd tcs (draws st))"
proof (induction tcs arbitrary: st)
  case Nil
  show ?case by simp
next
  case (Cons tc tcs)
  show ?case
    by (simp add: Cons.IH tool_call_ids)
qed

lemma show_nat_head: "\<exists>d ds. show_nat n = d # ds \<and> 48 \<le> (of_char d :: nat) \<and> (of_char d :: nat) \<le> 57"
proof (induction n rule: show_nat.induct)
  case (1 n)
  show ?case
  proof (cases "n < 10")
    case True
    then have "show_nat n = [digit_char n]" by (subst show_nat.simps) simp
    moreover from True have "48 \<le> (of_char (digit_char n) :: nat) \<and> (of_char (digit_char n) :: nat) \<le> 57"
      by (simp add: digit_char_def)
    ultimately show ?thesis by blast
  next
    case False
    from "1.IH"[OF False] obtain d ds where "show_nat (n div 10) = d # ds"
      and "48 \<le> (of_char d :: nat) \<and> (of_char d :: nat) \<le> 57" by blast
    moreover from False have "show_nat n = show_nat (n div 10) @ [digit_char (n mod 10)]"
      by (subst show_nat.simps) simp
    ultimately show ?thesis by simp
  qed
qed

lemma show_int_head:
  "\<exists>d ds. show_int i = d # ds \<and> d \<noteq> CHR ''{'' \<and> d \<noteq> CHR ''['' \<and> d \<noteq> CHR ''n'' \<and> 32 < (of_char d :: nat)"
proof (cases "i < 0")
  case True
  then show ?thesis by (simp add: show_int_def)
next
  case False
  from show_nat_head[of "nat i"] obtain d ds where
    "show_nat (nat i) = d # ds" and r: "48 \<le> (of_char d :: nat) \<and> (of_char d :: nat) \<le> 57" by blast
  moreover from r have "d \<noteq> CHR ''{'' \<and> d \<noteq> CHR ''['' \<and> d \<noteq> CHR ''n'' \<and> 32 < (of_char d :: nat)"
    by auto
  ultimately show ?thesis using False by (simp add: show_int_def)
qed

lemma response_result_cases:
  "response_result None = Some (JRaw ''{}'')"
  "response_result (Some (Raw None)) = Some (JRaw ''{}'')"
  "response_result (Some (Raw (Some JNull))) = None"
  "response_result (Some (Raw (Some (JObj kvs)))) = Some (JRaw (render (JObj kvs)))"
  "response_result (Some (Raw (Some (JArr xs)))) = Some (JRaw (render (JArr xs)))"
  "response_result (Some (Raw (Some (JStr s)))) = Some (JStr (quote s))"
  "response_result (Some (Raw (Some (JBool b)))) = Some (JStr (if b then ''true'' else ''false''))"
  by (simp_all add: response_result_def quote_def dq_def)

lemma response_result_number:
  "response_result (Some (Raw (Some (JNum n)))) = Some (JStr (show_int n))"
proof -
  from show_int_head[of n] obtain d ds where
    "show_int n = d # ds" "d \<noteq> CHR ''{''" "d \<noteq> CHR ''[''" "d \<noteq> CHR ''n''" "32 < (of_char d :: nat)"
    by blast
  then show ?thesis by (simp add: response_result_def)
qed

lemma second_pass_none:
  "list_all (\<lambda>m. \<not> answers m fid) arr \<Longrightarrow> second_pass arr toolResponses fid = toolResponses fid"
  by (induction arr arbitrary: toolResponses) (auto simp: answers_def Let_def)

lemma second_pass_last:
  assumes "answers m fid" and "fid \<noteq> []" and "list_all (\<lambda>m. \<not> answers m fid) after"
  shows "second_pass (before @ m # after) toolResponses fid = Some (Raw (gjson_Get m [''content'']))"
proof (induction before arbitrary: toolResponses)
  case Nil
  from assms(1,2) have "second_pass (m # after) toolResponses
      = second_pass after (toolResponses(fid \<mapsto> Raw (gjson_Get m [''content''])))"
    by (simp add: answers_def Let_def)
  then show ?case using second_pass_none[OF assms(3)] by simp
next
  case (Cons b before)
  show ?case by (simp add: Cons.IH Let_def)
qed

theorem call_without_id_gets_no_function_content:
  "gjson_Get (ConvertOpenAIRequestToAntigravity helpers (\<lambda>i. 0) ''gemini-2.5-pro'' no_id_request)
       [''request'', ''contents''] =
     Some (JArr [mk_node ''model'' [call_part helpers False ''add'' [] ''{}'']]) \<and>
   gjson_Get (ConvertOpenAIRequestToAntigravity helpers (\<lambda>i. 0) ''gemini-2.5-pro'' string_content_request)
       [''request'', ''contents''] =
     Some (JArr [mk_node ''model'' [call_part helpers False ''add'' ''call_1'' ''{}''],
                 mk_node ''function'' [response_part False ''add'' ''call_1''
                    (Some (JStr (quote (render (JObj [(''r'', JNum 2)])))))]])"
  by code_simp

theorem function_response_flattening:
  "(IsArray (gjson_Get m [''tool_calls'']) \<and>
    assistant_content U incl rnd (gjson_Get m [''content'']) k = (node, p, k1) \<and>
    tool_calls U incl rnd (Array (gjson_Get m [''tool_calls''])) (node, p, [], tcID2Name, k1)
      = (node', p', fIDs, tcID2Name', k') \<longrightarrow>
    assistant_message U incl rnd toolResponses m (out, tcID2Name, k) =
      ((if response_parts incl tcID2Name' toolResponses fIDs = [] then contents_append out node'
        else contents_append (contents_append out node')
               (mk_node ''function'' (response_parts incl tcID2Name' toolResponses fIDs))),
       tcID2Name', k') \<and>
    fIDs = filter (\<lambda>fid. fid \<noteq> [])
             (assigned_ids incl rnd (Array (gjson_Get m [''tool_calls''])) k1)) \<and>
   (list_all (\<lambda>m. \<not> answers m fid) arr \<longrightarrow> second_pass arr Map.empty fid = None) \<and>
   (answers t fid \<and> fid \<noteq> [] \<and> list_all (\<lambda>m. \<not> answers m fid) after \<longrightarrow>
      second_pass (before @ t # after) Map.empty fid = Some (Raw (gjson_Get t [''content'']))) \<and>
   response_result None = Some (JRaw ''{}'') \<and>
   response_result (Some (Raw None)) = Some (JRaw ''{}'') \<and>
   response_result (Some (Raw (Some JNull))) = None \<and>
   response_result (Some (Raw (Some (JObj kvs)))) = Some (JRaw (render (JObj kvs))) \<and>
   response_result (Some (Raw (Some (JArr xs)))) = Some (JRaw (render (JArr xs))) \<and>
   response_result (Some (Raw (Some (JStr s)))) = Some (JStr (quote s)) \<and>
   response_result (Some (Raw (Some (JNum n)))) = Some (JStr (show_int n)) \<and>
   response_result (Some (Raw (Some (JBool b)))) = Some (JStr (if b then ''true'' else ''false''))"
proof (intro conjI impI)
  assume a: "IsArray (gjson_Get m [''tool_calls'']) \<and>
    assistant_content U incl rnd (gjson_Get m [''content'']) k = (node, p, k1) \<and>
    tool_calls U incl rnd (Array (gjson_Get m [''tool_calls''])) (node, p, [], tcID2Name, k1)
      = (node', p', fIDs, tcID2Name', k')"
  let ?parts = "response_parts incl tcID2Name' toolResponses fIDs"
  have fr: "function_responses incl tcID2Name' toolResponses fIDs (new_node ''function'', 0)
      = (mk_node ''function'' ?parts, length ?parts)"
    using function_responses_parts[of incl tcID2Name' toolResponses fIDs "''function''" "[]"]
    by (simp add: new_node_mk)
  show "assistant_message U incl rnd toolResponses m (out, tcID2Name, k) =
      ((if ?parts = [] then contents_append out node'
        else contents_append (contents_append out node') (mk_node ''function'' ?parts)),
       tcID2Name', k')"
    using a fr by (simp add: assistant_message_def Let_def)
  from a have "function_ids (tool_calls U incl rnd (Array (gjson_Get m [''tool_calls''])) (node, p, [], tcID2Name, k1))
      = fIDs" by (simp add: function_ids_def)
  moreover have "function_ids (node, p, [], tcID2Name, k1) = []" "draws (node, p, [], tcID2Name, k1) = k1"
    by (simp_all add: function_ids_def draws_def)
  ultimately show "fIDs = filter (\<lambda>fid. fid \<noteq> []) (assigned_ids incl rnd (Array (gjson_Get m [''tool_calls''])) k1)"
    using tool_calls_ids[of U incl rnd "Array (gjson_Get m [''tool_calls''])" "(node, p, [], tcID2Name, k1)"]
    by simp
next
  assume "list_all (\<lambda>m. \<not> answers m fid) arr"
  then show "second_pass arr Map.empty fid = None" by (simp add: second_pass_none)
next
  assume "answers t fid \<and> fid \<noteq> [] \<and> list_all (\<lambda>m. \<not> answers m fid) after"
  then show "second_pass (before @ t # after) Map.empty fid = Some (Raw (gjson_Get t [''content'']))"
    using second_pass_last by blast
qed (simp_all only: response_result_cases response_result_number)

theorem function_response_flattening_witness:
  "IsArray (gjson_Get assistant_calls [''tool_calls'']) \<and>
   assistant_content helpers False (\<lambda>i. 0) (gjson_Get assistant_calls [''content'']) 0
     = (mk_node ''model'' [], 0, 0) \<and>
   tool_calls helpers False (\<lambda>i. 0) (Array (gjson_Get assistant_calls [''tool_calls'']))
       (mk_node ''model'' [], 0, [], [''call_1'' \<mapsto> ''add''], 0)
     = (mk_node ''model'' [call_part helpers False ''add'' ''call_1'' ''{}'',
                          call_part helpers False ''sub'' [] ''{}''],
        2, [''call_1''], [''call_1'' \<mapsto> ''add''], 0) \<and>
   assistant_message helpers False (\<lambda>i. 0) [''call_1'' \<mapsto> Raw (Some (JObj [(''r'', JNum 2)]))]
       assistant_calls (envelope, [''call_1'' \<mapsto> ''add''], 0)
     = (contents_append
          (contents_append envelope
             (mk_node ''model'' [call_part helpers False ''add'' ''call_1'' ''{}'',
                                call_part helpers False ''sub'' [] ''{}'']))
          (mk_node ''function''
             [response_part False ''add'' ''call_1'' (Some (JRaw (render (JObj [(''r'', JNum 2)]))))]),
        [''call_1'' \<mapsto> ''add''], 0) \<and>
   answers tool_answer ''call_1'' \<and>
   second_pass ([assistant_calls] @ tool_answer # []) Map.empty ''call_1''
     = Some (Raw (gjson_Get tool_answer [''content''])) \<and>
   list_all (\<lambda>m. \<not> answers m ''call_2'') [assistant_calls, tool_answer] \<and>
   second_pass [assistant_calls, tool_answer] Map.empty ''call_2'' = None"
proof -
  let ?names = "[''call_1'' \<mapsto> ''add'']"
  let ?tr = "[''call_1'' \<mapsto> Raw (Some (JObj [(''r'', JNum 2)]))]"
  let ?p1 = "call_part helpers False ''add'' ''call_1'' ''{}''"
  let ?p2 = "call_part helpers False ''sub'' [] ''{}''"
  have h1: "IsArray (gjson_Get assistant_calls [''tool_calls''])"
    by (simp add: assistant_calls_def)
  have h2: "assistant_content helpers False (\<lambda>i. 0) (gjson_Get assistant_calls [''content'']) 0
     = (mk_node ''model'' [], 0, 0)"
    by (simp add: assistant_calls_def assistant_content_def new_node_mk)
  have f1: "is_function_call add_call" "call_name add_call = ''add''" "call_args add_call = ''{}''"
    "call_id add_call = ''call_1''"
    by (simp_all add: is_function_call_def call_name_def call_args_def call_id_def add_call_def)
  have f2: "is_function_call call_without_id" "call_name call_without_id = ''sub''"
    "call_args call_without_id = ''{}''" "call_id call_without_id = []"
    by (simp_all add: is_function_call_def call_name_def call_args_def call_id_def call_without_id_def)
  have s1: "tool_call helpers False (\<lambda>i. 0) add_call (mk_node ''model'' [], 0, [], ?names, 0)
      = (mk_node ''model'' [?p1], 1, [''call_1''], ?names, 0)"
    using tool_call_mk[OF f1(1), of helpers False "\<lambda>i. 0" "''model''" "[]" "[]" ?names 0]
    by (simp add: f1 fresh_id_def)
  have s2: "tool_call helpers False (\<lambda>i. 0) call_without_id (mk_node ''model'' [?p1], 1, [''call_1''], ?names, 0)
      = (mk_node ''model'' [?p1, ?p2], 2, [''call_1''], ?names, 0)"
  proof -
    have "tool_call helpers False (\<lambda>i. 0) call_without_id (mk_node ''model'' [?p1], length [?p1], [''call_1''], ?names, 0)
      = (mk_node ''model'' ([?p1] @ [?p2]), Suc (length [?p1]), [''call_1''], ?names, 0)"
      unfolding tool_call_mk[OF f2(1), of helpers False "\<lambda>i. 0" "''model''" "[?p1]" "[''call_1'']" ?names 0]
      by (simp add: f2 fresh_id_def)
    thus ?thesis by (simp add: numeral_2_eq_2)
  qed
  have h3: "tool_calls helpers False (\<lambda>i. 0) (Array (gjson_Get assistant_calls [''tool_calls'']))
       (mk_node ''model'' [], 0, [], ?names, 0)
     = (mk_node ''model'' [?p1, ?p2], 2, [''call_1''], ?names, 0)"
    by (simp add: assistant_calls_def s1 s2[unfolded One_nat_def])
  have r: "response_parts False ?names ?tr [''call_1'']
      = [response_part False ''add'' ''call_1'' (Some (JRaw (render (JObj [(''r'', JNum 2)]))))]"
    by (simp add: response_parts_def List.map_filter_simps response_result_cases del: Raw.simps render.simps)
  have a1: "answers tool_answer ''call_1'' \<and> ''call_1'' \<noteq> [] \<and> list_all (\<lambda>m. \<not> answers m ''call_1'') []"
    by (simp add: answers_def tool_answer_def)
  have a2: "list_all (\<lambda>m. \<not> answers m ''call_2'') [assistant_calls, tool_answer]"
    by (simp add: answers_def tool_answer_def assistant_calls_def)
  note t = function_response_flattening[where m = assistant_calls and U = helpers and incl = False
      and rnd = "\<lambda>i. 0" and k = 0 and node = "mk_node ''model'' []" and p = 0 and ?k1.0 = 0
      and ?tcID2Name.0 = ?names and node' = "mk_node ''model'' [?p1, ?p2]" and p' = 2
      and fIDs = "[''call_1'']" and tcID2Name' = ?names and k' = 0 and toolResponses = ?tr
      and out = envelope and fid = "''call_2''" and arr = "[assistant_calls, tool_answer]"]
  note u = function_response_flattening[where t = tool_answer and fid = "''call_1''" and after = "[]"
      and before = "[assistant_calls]"]
  from t h1 h2 h3 have "assistant_message helpers False (\<lambda>i. 0) ?tr assistant_calls (envelope, ?names, 0)
     = ((if response_parts False ?names ?tr [''call_1''] = []
         then contents_append envelope (mk_node ''model'' [?p1, ?p2])
         else contents_append (contents_append envelope (mk_node ''model'' [?p1, ?p2]))
                (mk_node ''function'' (response_parts False ?names ?tr [''call_1'']))),
        ?names, 0)"
    by blast
  hence c1: "assistant_message helpers False (\<lambda>i. 0) ?tr assistant_calls (envelope, ?names, 0)
     = (contents_append (contents_append envelope (mk_node ''model'' [?p1, ?p2]))
          (mk_node ''function''
             [response_part False ''add'' ''call_1'' (Some (JRaw (render (JObj [(''r'', JNum 2)]))))]),
        ?names, 0)"
    by (simp only: r list.distinct if_False)
  have c2: "second_pass ([assistant_calls] @ tool_answer # []) Map.empty ''call_1''
     = Some (Raw (gjson_Get tool_answer [''content'']))"
    by (rule u[THEN conjunct2, THEN conjunct2, THEN conjunct1, rule_format, OF a1])
  have c3: "second_pass [assistant_calls, tool_answer] Map.empty ''call_2'' = None"
    by (rule t[THEN conjunct2, THEN conjunct1, rule_format, OF a2])
  from h1 h2 h3 c1 a1 c2 a2 c3 show ?thesis by blast
qed

end
